theory Spec2Isabelle
  imports Complex_Main
begin

section \<open>Data model\<close>

text \<open>
  The annotation editor keeps all of its mutable state in one global object, \<open>STATE\<close>,
  declared in the state module. The embedding passes that object explicitly: every source function that
  reads or writes \<open>STATE\<close> takes the record below and returns the updated one.

  JavaScript numbers are modelled as real numbers: rounding error, infinities and NaN of
  IEEE doubles are outside the model. A numeric field of an annotation object that may be
  missing is a \<open>real option\<close>, \<open>None\<close> standing for \<open>undefined\<close>; arithmetic on a
  missing field gives \<open>None\<close> again, the way \<open>undefined\<close> turns into NaN and NaN
  propagates through \<open>+\<close>, \<open>/\<close>, \<open>Math.max\<close>, \<open>Math.min\<close> and \<open>Math.sqrt\<close>.
\<close>

type_synonym point = "real \<times> real"

text \<open>
  A plain JavaScript object used as a dictionary is an association list in enumeration
  order with unique keys. \<open>obj_set\<close> is the assignment \<open>o[k] = v\<close>: it overwrites in place
  or appends a new key (keys that are canonical array indices enumerate first in
  JavaScript; no statement below depends on where a new key lands).
  \<open>obj_delete\<close> is \<open>delete o[k]\<close>.
\<close>

type_synonym 'v obj = "(string \<times> 'v) list"

definition obj_get :: "'v obj \<Rightarrow> string \<Rightarrow> 'v option" where
  "obj_get ob k = map_of ob k"

fun obj_set :: "string \<Rightarrow> 'v \<Rightarrow> 'v obj \<Rightarrow> 'v obj" where
  "obj_set k v [] = [(k, v)]"
| "obj_set k v (p # ps) = (if fst p = k then (k, v) # ps else p # obj_set k v ps)"

definition obj_delete :: "string \<Rightarrow> 'v obj \<Rightarrow> 'v obj" where
  "obj_delete k ob = filter (\<lambda>p. fst p \<noteq> k) ob"

text \<open>
  An annotation is a duck-typed object: the code tells landmarks, polygons and figures
  apart by the fields that are present. The record has one optional field per property
  the code ever writes (\<open>type\<close>, \<open>status\<close>, \<open>coordinates\<close>, \<open>points\<close>, \<open>x\<close>, \<open>y\<close>,
  \<open>shape\<close>, \<open>size\<close>, \<open>startX\<close>, \<open>startY\<close>, \<open>endX\<close>, \<open>endY\<close>, \<open>timestamp\<close>), with
  the prefix \<open>a_\<close> because record fields are global constants.
\<close>

record annotation =
  a_type :: "string option"
  a_status :: "string option"
  a_coordinates :: "point option"
  a_points :: "point list option"
  a_x :: "real option"
  a_y :: "real option"
  a_shape :: "string option"
  a_size :: "real option"
  a_startX :: "real option"
  a_startY :: "real option"
  a_endX :: "real option"
  a_endY :: "real option"
  a_timestamp :: "string option"

definition no_fields :: annotation where
  "no_fields = \<lparr> a_type = None, a_status = None, a_coordinates = None, a_points = None,
     a_x = None, a_y = None, a_shape = None, a_size = None,
     a_startX = None, a_startY = None, a_endX = None, a_endY = None,
     a_timestamp = None \<rparr>"

text \<open>
  A request is one \<open>fetch\<close> to the persistence service: the endpoint family
  (\<open>landmarks\<close>, \<open>segments\<close>, \<open>figures\<close>), the label in the URL, the \<open>action\<close> of the
  JSON body and the remaining body fields. The patient and image ids of the URL are
  constants of the page and are left out.
\<close>

record request =
  endpoint :: string
  label :: string
  action :: string
  body :: annotation

text \<open>
  What a \<open>fetch\<close> followed by \<open>response.json()\<close> can do: the body says
  \<open>status: 'success'\<close>, the body says anything else (the server refused), or one of the
  two calls throws (network failure, a body that is not JSON).
\<close>

datatype outcome = Success | Rejected | Threw

text \<open>
  Reading a property of \<open>undefined\<close> throws a \<open>TypeError\<close>. A function in which that
  can happen outside a \<open>try\<close> returns \<open>Inl TypeError\<close> there: the handler stops at that
  point. The assignments it made before that point stay in the source; the model does not
  keep the state of a handler that threw.
\<close>

datatype js_error = TypeError

record history_entry =
  h_annotations :: "annotation obj"
  h_timestamp :: string

text \<open>
  The fields of \<open>STATE\<close> that the modelled functions use, with their source names.
  \<open>figurePreview\<close> is a DOM node or \<open>null\<close>; only whether it is present is kept.
  Two logs make the effects on the outside world visible: \<open>messages\<close> collects the calls
  of \<open>showMessage\<close> (text and type, template placeholders left as written), and
  \<open>requests\<close> collects the calls of \<open>fetch\<close>.
\<close>

record STATE =
  currentTool :: string
  selectedLabel :: "string option"
  annotations :: "annotation obj"
  visibilityToggles :: "bool obj"
  imageLoaded :: bool
  naturalWidth :: real
  naturalHeight :: real
  currentZoom :: real
  maxZoom :: real
  translateX :: real
  translateY :: real
  isAnnotationMode :: bool
  isDragging :: bool
  startDragX :: real
  startDragY :: real
  activePolygonPoints :: "point list"
  polygonTool :: string
  polygonDragging :: bool
  selectedPointIndex :: int
  polygonMoveStart :: "point option"
  figureShape :: string
  figureDrawing :: bool
  figureStartX :: real
  figureStartY :: real
  figurePreview :: bool
  selectedFigure :: "string option"
  figureDragging :: bool
  figureResizing :: bool
  figureDragStartX :: real
  figureDragStartY :: real
  figureOriginalX :: "real option"
  figureOriginalY :: "real option"
  figureOriginalSize :: "real option"
  resizeHandle :: "string option"
  figureDragOffsetX :: real
  figureDragOffsetY :: real
  linePoints :: "point list"
  linePointDragging :: bool
  linePointDraggedFigure :: "string option"
  linePointDraggedType :: "string option"
  figureOriginalStartX :: "real option"
  figureOriginalStartY :: "real option"
  figureOriginalEndX :: "real option"
  figureOriginalEndY :: "real option"
  history :: "history_entry list"
  historyIndex :: int
  maxHistorySize :: nat
  messages :: "(string \<times> string) list"
  requests :: "request list"

text \<open>The object literal that declares \<open>STATE\<close>, for a page that loads the
  annotations \<open>anns\<close>.\<close>

definition initial_STATE :: "annotation obj \<Rightarrow> STATE" where
  "initial_STATE anns = \<lparr>
     currentTool = ''landmark'', selectedLabel = None,
     annotations = anns, visibilityToggles = [],
     imageLoaded = False, naturalWidth = 0, naturalHeight = 0,
     currentZoom = 1, maxZoom = 1000, translateX = 0, translateY = 0,
     isAnnotationMode = True, isDragging = False, startDragX = 0, startDragY = 0,
     activePolygonPoints = [], polygonTool = ''draw'', polygonDragging = False,
     selectedPointIndex = - 1, polygonMoveStart = None,
     figureShape = ''circle'', figureDrawing = False, figureStartX = 0, figureStartY = 0,
     figurePreview = False,
     selectedFigure = None, figureDragging = False, figureResizing = False,
     figureDragStartX = 0, figureDragStartY = 0,
     figureOriginalX = Some 0, figureOriginalY = Some 0, figureOriginalSize = Some 0,
     resizeHandle = None, figureDragOffsetX = 0, figureDragOffsetY = 0,
     linePoints = [], linePointDragging = False,
     linePointDraggedFigure = None, linePointDraggedType = None,
     figureOriginalStartX = Some 0, figureOriginalStartY = Some 0,
     figureOriginalEndX = Some 0, figureOriginalEndY = Some 0,
     history = [], historyIndex = - 1, maxHistorySize = 50,
     messages = [], requests = [] \<rparr>"

section \<open>Utilities (utilities.js)\<close>

subsection \<open>Coordinate conversion\<close>

definition imageToDisplayCoords :: "STATE \<Rightarrow> real \<Rightarrow> real \<Rightarrow> point" where
  "imageToDisplayCoords st imageX imageY =
     (imageX * currentZoom st + translateX st, imageY * currentZoom st + translateY st)"

definition displayToImageCoords :: "STATE \<Rightarrow> real \<Rightarrow> real \<Rightarrow> point" where
  "displayToImageCoords st displayX displayY =
     ((displayX - translateX st) / currentZoom st, (displayY - translateY st) / currentZoom st)"

text \<open>
  \<open>eventToImageCoords\<close> first subtracts the container's bounding rectangle from the
  client position; its argument here is that container-relative position.
\<close>

definition eventToImageCoords :: "STATE \<Rightarrow> real \<Rightarrow> real \<Rightarrow> point" where
  "eventToImageCoords st containerX containerY =
     ((containerX - translateX st) / currentZoom st, (containerY - translateY st) / currentZoom st)"

definition isWithinImageBounds :: "STATE \<Rightarrow> real \<Rightarrow> real \<Rightarrow> bool" where
  "isWithinImageBounds st x y \<longleftrightarrow> x \<ge> 0 \<and> y \<ge> 0 \<and> x < naturalWidth st \<and> y < naturalHeight st"

definition showMessage :: "string \<Rightarrow> string \<Rightarrow> STATE \<Rightarrow> STATE" where
  "showMessage text type st = st\<lparr> messages := messages st @ [(text, type)] \<rparr>"

subsection \<open>Undo and redo\<close>

text \<open>
  \<open>deepClone\<close> copies a value; values of HOL are immutable, so it is the identity.
  \<open>now\<close> is the result of \<open>new Date().toISOString()\<close>.
  \<open>slice(0, n)\<close> with a negative \<open>n\<close> counts from the end of the array.
\<close>

definition deepClone :: "'a \<Rightarrow> 'a" where
  "deepClone v = v"

definition slice0 :: "'a list \<Rightarrow> int \<Rightarrow> 'a list" where
  "slice0 xs n = (if n < 0 then take (nat (int (length xs) + n)) xs else take (nat n) xs)"

definition saveToHistory :: "string \<Rightarrow> STATE \<Rightarrow> STATE" where
  "saveToHistory now st =
     (let st1 = (if historyIndex st < int (length (history st)) - 1
                 then st\<lparr> history := slice0 (history st) (historyIndex st + 1) \<rparr>
                 else st);
          state = \<lparr> h_annotations = deepClone (annotations st1), h_timestamp = now \<rparr>;
          st2 = st1\<lparr> history := history st1 @ [state] \<rparr>
      in if length (history st2) > maxHistorySize st2
         then st2\<lparr> history := tl (history st2) \<rparr>
         else st2\<lparr> historyIndex := historyIndex st2 + 1 \<rparr>)"

text \<open>
  \<open>undo\<close> and \<open>redo\<close> read \<open>STATE.history[STATE.historyIndex].annotations\<close>; on an index
  outside the array the element is \<open>undefined\<close> and the property access throws.
\<close>

definition history_at :: "STATE \<Rightarrow> int \<Rightarrow> js_error + history_entry" where
  "history_at st i =
     (if 0 \<le> i \<and> i < int (length (history st)) then Inr (history st ! nat i) else Inl TypeError)"

definition undo :: "STATE \<Rightarrow> js_error + STATE" where
  "undo st =
     (if historyIndex st > 0
      then (let st1 = st\<lparr> historyIndex := historyIndex st - 1 \<rparr>
            in case history_at st1 (historyIndex st1) of
                 Inl e \<Rightarrow> Inl e
               | Inr h \<Rightarrow> Inr (showMessage ''Undo successful'' ''success''
                                 (st1\<lparr> annotations := deepClone (h_annotations h) \<rparr>)))
      else Inr st)"

definition redo :: "STATE \<Rightarrow> js_error + STATE" where
  "redo st =
     (if historyIndex st < int (length (history st)) - 1
      then (let st1 = st\<lparr> historyIndex := historyIndex st + 1 \<rparr>
            in case history_at st1 (historyIndex st1) of
                 Inl e \<Rightarrow> Inl e
               | Inr h \<Rightarrow> Inr (showMessage ''Redo successful'' ''success''
                                 (st1\<lparr> annotations := deepClone (h_annotations h) \<rparr>)))
      else Inr st)"

text \<open>
  The part of \<open>initializeApp\<close> (initialization.js) that concerns the history: the store
  is loaded from the page and the first snapshot is saved before any event is handled.
\<close>

definition initializeApp :: "annotation obj \<Rightarrow> string \<Rightarrow> STATE" where
  "initializeApp anns now = saveToHistory now (initial_STATE anns)"

text \<open>
  Every successful mutation in the code ends the same way: the store has its new value
  and \<open>saveToHistory\<close> is called. \<open>mutation\<close> is that step for an arbitrary new value of
  the store; a session of the history manager is a list of such steps, undos and redos.
\<close>

definition mutation :: "annotation obj \<Rightarrow> string \<Rightarrow> STATE \<Rightarrow> STATE" where
  "mutation anns now st = saveToHistory now (st\<lparr> annotations := anns \<rparr>)"

datatype hist_op = Mutation "annotation obj" string | Undo | Redo

fun hist_step :: "hist_op \<Rightarrow> STATE \<Rightarrow> js_error + STATE" where
  "hist_step (Mutation anns now) st = Inr (mutation anns now st)"
| "hist_step Undo st = undo st"
| "hist_step Redo st = redo st"

fun hist_run :: "hist_op list \<Rightarrow> STATE \<Rightarrow> js_error + STATE" where
  "hist_run [] st = Inr st"
| "hist_run (e # es) st =
     (case hist_step e st of Inl err \<Rightarrow> Inl err | Inr st' \<Rightarrow> hist_run es st')"

fun undo_times :: "nat \<Rightarrow> STATE \<Rightarrow> js_error + STATE" where
  "undo_times 0 st = Inr st"
| "undo_times (Suc n) st =
     (case undo st of Inl err \<Rightarrow> Inl err | Inr st' \<Rightarrow> undo_times n st')"

fun is_Mutation :: "hist_op \<Rightarrow> bool" where
  "is_Mutation (Mutation anns now) = True"
| "is_Mutation Undo = False"
| "is_Mutation Redo = False"

section \<open>Zoom and view (zoom.js)\<close>

text \<open>
  \<open>applyZoom\<close> writes the CSS transform and re-renders; it changes no field of \<open>STATE\<close>.
  \<open>resetView\<close> reads the size of the container, \<open>handleWheel\<close> the wheel delta and the
  container-relative mouse position.
\<close>

definition zoomIn :: "STATE \<Rightarrow> STATE" where
  "zoomIn st =
     (if currentZoom st < maxZoom st
      then st\<lparr> currentZoom := min (maxZoom st) (currentZoom st * 1.5) \<rparr>
      else st)"

definition zoomOut :: "STATE \<Rightarrow> STATE" where
  "zoomOut st =
     (if currentZoom st > 0.1
      then st\<lparr> currentZoom := max 0.1 (currentZoom st / 1.5) \<rparr>
      else st)"

definition resetView :: "real \<Rightarrow> real \<Rightarrow> STATE \<Rightarrow> STATE" where
  "resetView containerWidth containerHeight st =
     (let st1 = st\<lparr> currentZoom := 1, translateX := 0, translateY := 0 \<rparr>;
          scaledWidth = naturalWidth st1 * currentZoom st1;
          scaledHeight = naturalHeight st1 * currentZoom st1;
          st2 = (if scaledWidth < containerWidth
                 then st1\<lparr> translateX := (containerWidth - scaledWidth) / 2 \<rparr> else st1)
      in if scaledHeight < containerHeight
         then st2\<lparr> translateY := (containerHeight - scaledHeight) / 2 \<rparr> else st2)"

definition handleWheel :: "real \<Rightarrow> real \<Rightarrow> real \<Rightarrow> STATE \<Rightarrow> STATE" where
  "handleWheel deltaY mouseX mouseY st =
     (let delta = (if deltaY > 0 then 0.8 else 1.25);
          oldZoom = currentZoom st;
          st1 = st\<lparr> currentZoom := min (maxZoom st) (max 0.1 (currentZoom st * delta)) \<rparr>;
          mouseRelX = (mouseX - translateX st1) / oldZoom;
          mouseRelY = (mouseY - translateY st1) / oldZoom
      in st1\<lparr> translateX := mouseX - mouseRelX * currentZoom st1,
              translateY := mouseY - mouseRelY * currentZoom st1 \<rparr>)"

text \<open>
  \<open>handleImageLoad\<close> (initialization.js) records the natural size of the image and
  resets the view.
\<close>

definition handleImageLoad :: "real \<Rightarrow> real \<Rightarrow> real \<Rightarrow> real \<Rightarrow> STATE \<Rightarrow> STATE" where
  "handleImageLoad imgWidth imgHeight containerWidth containerHeight st =
     resetView containerWidth containerHeight
       (st\<lparr> imageLoaded := True, naturalWidth := imgWidth, naturalHeight := imgHeight \<rparr>)"

text \<open>The view operations as events, and a run of them from a given state.\<close>

datatype view_op =
    ZoomIn
  | ZoomOut
  | Wheel real real real
  | ResetView real real
  | ImageLoad real real real real

fun view_step :: "view_op \<Rightarrow> STATE \<Rightarrow> STATE" where
  "view_step ZoomIn st = zoomIn st"
| "view_step ZoomOut st = zoomOut st"
| "view_step (Wheel deltaY mouseX mouseY) st = handleWheel deltaY mouseX mouseY st"
| "view_step (ResetView w h) st = resetView w h st"
| "view_step (ImageLoad iw ih w h) st = handleImageLoad iw ih w h st"

fun view_run :: "view_op list \<Rightarrow> STATE \<Rightarrow> STATE" where
  "view_run [] st = st"
| "view_run (e # es) st = view_run es (view_step e st)"

section \<open>Annotation operations (module annotations)\<close>

text \<open>
  A property key is a string: \<open>STATE.annotations[STATE.selectedLabel]\<close> with no label
  selected uses the key \<open>null\<close>, and so does the URL template. A string is truthy when it
  is neither \<open>null\<close> nor empty.

  An \<open>async\<close> function is modelled as one step: the request is logged, and the code
  after the \<open>await\<close> runs at once on the given outcome. \<open>now\<close> is the reading of the
  clock; the readings one call takes are assumed equal. The calls of \<open>renderLabelList\<close>
  and \<open>renderAnnotations\<close> change the page only, not \<open>STATE\<close>.
\<close>

definition key_of :: "string option \<Rightarrow> string" where
  "key_of k = (case k of None \<Rightarrow> ''null'' | Some s \<Rightarrow> s)"

definition truthy :: "string option \<Rightarrow> bool" where
  "truthy k = (case k of None \<Rightarrow> False | Some s \<Rightarrow> s \<noteq> [])"

definition fetch :: "string \<Rightarrow> string \<Rightarrow> string \<Rightarrow> annotation \<Rightarrow> STATE \<Rightarrow> STATE" where
  "fetch ep name act flds st =
     st\<lparr> requests := requests st
            @ [\<lparr> endpoint = ep, label = name, action = act, body = flds \<rparr>] \<rparr>"

definition toggleVisibility :: "string \<Rightarrow> STATE \<Rightarrow> STATE" where
  "toggleVisibility name st =
     st\<lparr> visibilityToggles :=
            obj_set name (obj_get (visibilityToggles st) name \<noteq> Some True) (visibilityToggles st) \<rparr>"

definition markOccluded :: "string \<Rightarrow> outcome \<Rightarrow> string \<Rightarrow> STATE \<Rightarrow> STATE" where
  "markOccluded name resp now st =
     (let st1 = fetch ''landmarks'' name ''occluded'' no_fields st
      in case resp of
           Success \<Rightarrow>
             showMessage ''${name} marked as occluded'' ''success''
               (saveToHistory now
                 (st1\<lparr> annotations :=
                   obj_set name
                     (no_fields\<lparr> a_status := Some ''occluded/missing'', a_timestamp := Some now \<rparr>)
                     (annotations st1) \<rparr>))
         | Rejected \<Rightarrow> st1
         | Threw \<Rightarrow> showMessage ''Failed to mark as occluded'' ''error'' st1)"


definition annotateLandmark :: "point \<Rightarrow> outcome \<Rightarrow> string \<Rightarrow> STATE \<Rightarrow> STATE" where
  "annotateLandmark coords resp now st =
     (let st1 = fetch ''landmarks'' (key_of (selectedLabel st)) ''coordinates''
                  (no_fields\<lparr> a_x := Some (fst coords), a_y := Some (snd coords) \<rparr>) st
      in case resp of
           Success \<Rightarrow>
             showMessage ''Annotated ${STATE.selectedLabel}'' ''success''
               (saveToHistory now
                 (st1\<lparr> annotations :=
                   obj_set (key_of (selectedLabel st1))
                     (no_fields\<lparr> a_status := Some ''ok'',
                        a_coordinates := Some (fst coords, snd coords),
                        a_timestamp := Some now \<rparr>)
                     (annotations st1) \<rparr>))
         | Rejected \<Rightarrow> st1
         | Threw \<Rightarrow> showMessage ''Failed to save annotation'' ''error'' st1)"

section \<open>Polygons (polygons.js)\<close>

text \<open>
  \<open>findNearestPointIndex\<close> walks the transient point list with \<open>forEach\<close>; the loop
  carries the index, \<open>closestIndex\<close> and \<open>closestDistance\<close>, whose initial value
  \<open>Infinity\<close> is \<open>None\<close>.
\<close>

fun findNearestPointIndex_loop ::
  "point \<Rightarrow> real \<Rightarrow> point list \<Rightarrow> int \<Rightarrow> int \<times> real option \<Rightarrow> int \<times> real option" where
  "findNearestPointIndex_loop coords threshold [] index acc = acc"
| "findNearestPointIndex_loop coords threshold (point # rest) index (closestIndex, closestDistance) =
     (let distance = sqrt ((fst point - fst coords)\<^sup>2 + (snd point - snd coords)\<^sup>2)
      in findNearestPointIndex_loop coords threshold rest (index + 1)
           (if distance < threshold
                 \<and> (case closestDistance of None \<Rightarrow> True | Some d \<Rightarrow> distance < d)
            then (index, Some distance)
            else (closestIndex, closestDistance)))"

definition findNearestPointIndex :: "STATE \<Rightarrow> point \<Rightarrow> int" where
  "findNearestPointIndex st coords =
     fst (findNearestPointIndex_loop coords (10 / currentZoom st) (activePolygonPoints st) 0
            (- 1, None))"

definition setPolygonTool :: "string \<Rightarrow> STATE \<Rightarrow> STATE" where
  "setPolygonTool tool st = st\<lparr> polygonTool := tool \<rparr>"

text \<open>
  The transient point list is one array object in the source. \<open>push\<close> in
  \<open>handlePolygonClick\<close> and the vertex assignment in \<open>handlePolygonDrag\<close> write that
  array in place, and on success \<open>completePolygon\<close> stores the array itself as the
  \<open>points\<close> of the store entry, so that a later in-place write to the transient list is
  a write to the stored polygon as well. The model works with values: a store entry holds
  the points the array has at the moment it is stored and does not follow later writes to
  the transient list. The statements about polygons below start from an empty transient
  list, which no store entry shares, and speak of the state right after the call; the
  statements about figures are made for pointer-moves that do not run the polygon block.
\<close>

definition handlePolygonClick :: "point \<Rightarrow> STATE \<Rightarrow> STATE" where
  "handlePolygonClick coords st =
     (if polygonTool st = ''draw''
      then st\<lparr> activePolygonPoints := activePolygonPoints st @ [(fst coords, snd coords)] \<rparr>
      else if polygonTool st = ''edit''
      then (let st1 = st\<lparr> selectedPointIndex := findNearestPointIndex st coords \<rparr>
            in if selectedPointIndex st1 \<noteq> - 1 then st1\<lparr> polygonDragging := True \<rparr> else st1)
      else if polygonTool st = ''move''
      then st\<lparr> polygonDragging := True, polygonMoveStart := Some (fst coords, snd coords) \<rparr>
      else st)"

text \<open>
  \<open>handlePolygonDrag\<close>. The vertex assignment \<open>points[i] = ...\<close> replaces an element
  when \<open>i\<close> is an index of the array and appends when \<open>i\<close> is its length. A larger
  \<open>i\<close> leaves holes, on which \<open>renderActivePolygon\<close> throws when it draws the edges; a
  negative \<open>i\<close> sets a property that is no element. The move branch assigns a new array.
\<close>

definition handlePolygonDrag :: "point \<Rightarrow> STATE \<Rightarrow> js_error + STATE" where
  "handlePolygonDrag coords st =
     (if polygonTool st = ''edit'' \<and> selectedPointIndex st \<noteq> - 1
      then (let i = selectedPointIndex st;
                n = int (length (activePolygonPoints st))
            in if 0 \<le> i \<and> i < n
               then Inr (st\<lparr> activePolygonPoints :=
                           (activePolygonPoints st)[nat i := (fst coords, snd coords)] \<rparr>)
               else if i = n
               then Inr (st\<lparr> activePolygonPoints :=
                           activePolygonPoints st @ [(fst coords, snd coords)] \<rparr>)
               else if i < 0 then Inr st
               else Inl TypeError)
      else if polygonTool st = ''move'' \<and> polygonDragging st \<and> polygonMoveStart st \<noteq> None
      then (case polygonMoveStart st of
              None \<Rightarrow> Inr st
            | Some start \<Rightarrow>
                (let deltaX = fst coords - fst start;
                     deltaY = snd coords - snd start
                 in Inr (st\<lparr> activePolygonPoints :=
                            map (\<lambda>point. (fst point + deltaX, snd point + deltaY))
                              (activePolygonPoints st),
                          polygonMoveStart := Some (fst coords, snd coords) \<rparr>)))
      else Inr st)"

definition completePolygon :: "outcome \<Rightarrow> string \<Rightarrow> STATE \<Rightarrow> STATE" where
  "completePolygon resp now st =
     (if length (activePolygonPoints st) < 3
      then showMessage ''Need at least 3 points'' ''warning'' st
      else
        let st1 = fetch ''segments'' (key_of (selectedLabel st)) ''polygon''
                    (no_fields\<lparr> a_points := Some (activePolygonPoints st) \<rparr>) st
        in case resp of
             Success \<Rightarrow>
               setPolygonTool ''edit''
                 (showMessage ''Polygon saved'' ''success''
                   (saveToHistory now
                     (st1\<lparr> annotations :=
                       obj_set (key_of (selectedLabel st1))
                         (no_fields\<lparr> a_type := Some ''polygon'', a_status := Some ''ok'',
                            a_points := Some (activePolygonPoints st1),
                            a_timestamp := Some now \<rparr>)
                         (annotations st1) \<rparr>)))
           | Rejected \<Rightarrow> st1
           | Threw \<Rightarrow> showMessage ''Failed to save polygon'' ''error'' st1)"

definition cancelPolygon :: "STATE \<Rightarrow> STATE" where
  "cancelPolygon st = setPolygonTool ''draw'' (st\<lparr> activePolygonPoints := [] \<rparr>)"

section \<open>Figures (figures.js)\<close>

text \<open>
  \<open>Math.round\<close> rounds to the nearest integer, halves upwards. \<open>num2\<close> lifts a binary
  operation to numbers that may be missing.
\<close>

definition Math_round :: "real \<Rightarrow> real" where
  "Math_round v = of_int \<lfloor>v + 1 / 2\<rfloor>"

definition num2 :: "(real \<Rightarrow> real \<Rightarrow> real) \<Rightarrow> real option \<Rightarrow> real option \<Rightarrow> real option" where
  "num2 f a b = (case a of None \<Rightarrow> None
                 | Some u \<Rightarrow> (case b of None \<Rightarrow> None | Some v \<Rightarrow> Some (f u v)))"

definition completeLineDrawing :: "outcome \<Rightarrow> string \<Rightarrow> STATE \<Rightarrow> STATE" where
  "completeLineDrawing resp now st =
     (case linePoints st of
        [startPoint, endPoint] \<Rightarrow>
          (let dx = fst endPoint - fst startPoint;
               dy = snd endPoint - snd startPoint;
               len = sqrt (dx * dx + dy * dy)
           in if len < 10
              then (showMessage ''Line too short, draw longer'' ''warning'' st)
                     \<lparr> linePoints := [], figurePreview := False \<rparr>
              else
                let centerX = (fst startPoint + fst endPoint) / 2;
                    centerY = (snd startPoint + snd endPoint) / 2;
                    flds = no_fields\<lparr> a_x := Some centerX, a_y := Some centerY,
                             a_shape := Some ''line'', a_size := Some (Math_round len),
                             a_startX := Some (fst startPoint), a_startY := Some (snd startPoint),
                             a_endX := Some (fst endPoint), a_endY := Some (snd endPoint) \<rparr>;
                    st1 = fetch ''figures'' (key_of (selectedLabel st)) ''figure'' flds st;
                    st2 = (case resp of
                             Success \<Rightarrow>
                               showMessage ''Created line (${Math.round(length)}px)'' ''success''
                                 (saveToHistory now
                                   (st1\<lparr> annotations :=
                                     obj_set (key_of (selectedLabel st1))
                                       (flds\<lparr> a_type := Some ''figure'', a_status := Some ''ok'',
                                          a_timestamp := Some now \<rparr>)
                                       (annotations st1) \<rparr>))
                           | Rejected \<Rightarrow> st1
                           | Threw \<Rightarrow> showMessage ''Failed to save line'' ''error'' st1)
                in st2\<lparr> linePoints := [], figurePreview := False \<rparr>)
      | _ \<Rightarrow> st)"

definition startFigureDrawing :: "point \<Rightarrow> outcome \<Rightarrow> string \<Rightarrow> STATE \<Rightarrow> STATE" where
  "startFigureDrawing coords resp now st =
     (if figureShape st = ''line''
      then (let st1 = st\<lparr> linePoints := linePoints st @ [(fst coords, snd coords)] \<rparr>
            in if length (linePoints st1) = 1 then st1\<lparr> figurePreview := True \<rparr>
               else if length (linePoints st1) = 2 then completeLineDrawing resp now st1
               else st1)
      else st\<lparr> figureDrawing := True, figureStartX := fst coords, figureStartY := snd coords,
               figurePreview := True \<rparr>)"

definition completeFigureDrawing :: "point \<Rightarrow> outcome \<Rightarrow> string \<Rightarrow> STATE \<Rightarrow> STATE" where
  "completeFigureDrawing coords resp now st =
     (if \<not> figureDrawing st then st
      else
        let centerX = figureStartX st;
            centerY = figureStartY st;
            dx = fst coords - centerX;
            dy = snd coords - centerY;
            size' = Math_round (sqrt (dx * dx + dy * dy) * 2)
        in if size' < 10
           then (showMessage ''Figure too small, draw larger'' ''warning'' st)
                  \<lparr> figurePreview := False, figureDrawing := False \<rparr>
           else
             let flds = no_fields\<lparr> a_x := Some centerX, a_y := Some centerY,
                          a_shape := Some (figureShape st), a_size := Some size' \<rparr>;
                 st1 = fetch ''figures'' (key_of (selectedLabel st)) ''figure'' flds st;
                 st2 = (case resp of
                          Success \<Rightarrow>
                            showMessage ''Created ${STATE.figureShape} (${size}px)'' ''success''
                              (saveToHistory now
                                (st1\<lparr> annotations :=
                                  obj_set (key_of (selectedLabel st1))
                                    (no_fields\<lparr> a_type := Some ''figure'', a_status := Some ''ok'',
                                       a_x := Some centerX, a_y := Some centerY,
                                       a_shape := Some (figureShape st1), a_size := Some size',
                                       a_timestamp := Some now \<rparr>)
                                    (annotations st1) \<rparr>))
                        | Rejected \<Rightarrow> st1
                        | Threw \<Rightarrow> showMessage ''Failed to save figure'' ''error'' st1)
             in st2\<lparr> figurePreview := False, figureDrawing := False \<rparr>)"

text \<open>
  What a \<open>mousedown\<close> on a figure hit: one of its resize handles (the handle's name and
  the name of the figure element around it), or anything else, with the
  \<open>dataset.figureName\<close> of the target if it has one. The drag offsets come from the
  bounding rectangles of the page and are arguments.
\<close>

datatype mouse_target = ResizeHandle string string | Other "string option"

definition handleFigureMouseDown ::
  "mouse_target \<Rightarrow> real \<Rightarrow> real \<Rightarrow> real \<Rightarrow> real \<Rightarrow> STATE \<Rightarrow> js_error + STATE" where
  "handleFigureMouseDown target mouseX mouseY offsetX offsetY st =
     (if isAnnotationMode st then Inr st
      else case target of
        ResizeHandle handle figureName \<Rightarrow>
          (case obj_get (annotations st) figureName of
             None \<Rightarrow> Inl TypeError
           | Some figureData \<Rightarrow>
               Inr (st\<lparr> figureResizing := True, resizeHandle := Some handle,
                      figureOriginalSize := a_size figureData,
                      figureDragStartX := mouseX, figureDragStartY := mouseY \<rparr>))
      | Other figureName \<Rightarrow>
          (case obj_get (annotations st)
                  (case figureName of None \<Rightarrow> ''undefined'' | Some n \<Rightarrow> n) of
             None \<Rightarrow> Inl TypeError
           | Some figureData \<Rightarrow>
               Inr (st\<lparr> figureDragging := True, selectedFigure := figureName,
                      figureDragStartX := mouseX, figureDragStartY := mouseY,
                      figureOriginalX := a_x figureData, figureOriginalY := a_y figureData,
                      figureDragOffsetX := offsetX, figureDragOffsetY := offsetY \<rparr>)))"


definition updateFigurePosition :: "string \<Rightarrow> real option \<Rightarrow> real option \<Rightarrow> STATE \<Rightarrow> STATE" where
  "updateFigurePosition figureName newX newY st =
     (case obj_get (annotations st) figureName of
        None \<Rightarrow> st
      | Some figureData \<Rightarrow>
          st\<lparr> annotations :=
                 obj_set figureName (figureData\<lparr> a_x := newX, a_y := newY \<rparr>) (annotations st) \<rparr>)"

definition updateFigureSize :: "string \<Rightarrow> real option \<Rightarrow> STATE \<Rightarrow> STATE" where
  "updateFigureSize figureName newSize st =
     (case obj_get (annotations st) figureName of
        None \<Rightarrow> st
      | Some figureData \<Rightarrow>
          st\<lparr> annotations :=
                 obj_set figureName (figureData\<lparr> a_size := map_option (max 10) newSize \<rparr>)
                   (annotations st) \<rparr>)"

text \<open>
  \<open>saveFigureUpdate\<close> in two halves: up to the \<open>await\<close> (the request is sent), and after
  it. \<open>moveFigureWithArrow\<close> does not await the call, so its own last statement runs
  between the two.
\<close>

definition saveFigureUpdate_send ::
  "string \<Rightarrow> real option \<Rightarrow> real option \<Rightarrow> string option \<Rightarrow> real option \<Rightarrow> STATE \<Rightarrow> STATE" where
  "saveFigureUpdate_send figureName x y shape size' st =
     fetch ''figures'' figureName ''update''
       (no_fields\<lparr> a_x := x, a_y := y, a_shape := shape, a_size := size' \<rparr>) st"

definition saveFigureUpdate_resume :: "outcome \<Rightarrow> string \<Rightarrow> STATE \<Rightarrow> STATE" where
  "saveFigureUpdate_resume resp now st =
     (case resp of
        Success \<Rightarrow> showMessage ''Updated ${figureName}'' ''success'' (saveToHistory now st)
      | Rejected \<Rightarrow> st
      | Threw \<Rightarrow> showMessage ''Failed to update figure'' ''error'' st)"

definition saveFigureUpdate ::
  "string \<Rightarrow> real option \<Rightarrow> real option \<Rightarrow> string option \<Rightarrow> real option
     \<Rightarrow> outcome \<Rightarrow> string \<Rightarrow> STATE \<Rightarrow> STATE" where
  "saveFigureUpdate figureName x y shape size' resp now st =
     saveFigureUpdate_resume resp now (saveFigureUpdate_send figureName x y shape size' st)"





text \<open>
  \<open>handleLineMouseDown\<close>: \<open>interactive\<close> says whether the figure element carries the
  class of that name, \<open>figureName\<close> is its \<open>dataset.figureName\<close>.
\<close>

definition handleLineMouseDown ::
  "bool \<Rightarrow> string \<Rightarrow> real \<Rightarrow> real \<Rightarrow> real \<Rightarrow> real \<Rightarrow> STATE \<Rightarrow> js_error + STATE" where
  "handleLineMouseDown interactive figureName mouseX mouseY offsetX offsetY st =
     (if isAnnotationMode st then Inr st
      else if \<not> interactive then Inr st
      else case obj_get (annotations st) figureName of
             None \<Rightarrow> Inl TypeError
           | Some figureData \<Rightarrow>
               Inr (st\<lparr> figureDragging := True, selectedFigure := Some figureName,
                      figureDragStartX := mouseX, figureDragStartY := mouseY,
                      figureOriginalX := a_x figureData, figureOriginalY := a_y figureData,
                      figureOriginalStartX := a_startX figureData,
                      figureOriginalStartY := a_startY figureData,
                      figureOriginalEndX := a_endX figureData,
                      figureOriginalEndY := a_endY figureData,
                      figureDragOffsetX := offsetX, figureDragOffsetY := offsetY \<rparr>))"

definition handleLinePointMouseDown :: "string option \<Rightarrow> string option \<Rightarrow> STATE \<Rightarrow> STATE" where
  "handleLinePointMouseDown figureName pointType st =
     (if isAnnotationMode st then st
      else st\<lparr> linePointDragging := True, linePointDraggedFigure := figureName,
               linePointDraggedType := pointType \<rparr>)"


text \<open>
  \<open>moveFigureWithArrow\<close> reads the modifier keys from the global \<open>event\<close>; they are the
  arguments \<open>shiftKey\<close>, \<open>ctrlKey\<close> and \<open>metaKey\<close>. The \<open>switch\<close> has no default case.
\<close>

definition moveFigureWithArrow ::
  "string \<Rightarrow> bool \<Rightarrow> bool \<Rightarrow> bool \<Rightarrow> outcome \<Rightarrow> string \<Rightarrow> STATE \<Rightarrow> js_error + STATE" where
  "moveFigureWithArrow direction shiftKey ctrlKey metaKey resp now st =
     (if \<not> truthy (selectedFigure st) then Inr st
      else case obj_get (annotations st) (key_of (selectedFigure st)) of
        None \<Rightarrow> Inl TypeError
      | Some figureData \<Rightarrow>
          (let stepSize = (if shiftKey then 10 else if ctrlKey \<or> metaKey then 0.5 else 1);
               newX = a_x figureData;
               newY = a_y figureData;
               newY1 = (if direction = ''ArrowUp'' then map_option (\<lambda>v. v - stepSize) newY
                        else if direction = ''ArrowDown'' then map_option (\<lambda>v. v + stepSize) newY
                        else newY);
               newX1 = (if direction = ''ArrowLeft'' then map_option (\<lambda>v. v - stepSize) newX
                        else if direction = ''ArrowRight'' then map_option (\<lambda>v. v + stepSize) newX
                        else newX);
               imageWidth = naturalWidth st;
               imageHeight = naturalHeight st;
               newX2 = map_option (\<lambda>v. max 0 (min imageWidth v)) newX1;
               newY2 = map_option (\<lambda>v. max 0 (min imageHeight v)) newY1;
               st1 = updateFigurePosition (key_of (selectedFigure st)) newX2 newY2 st;
               st2 = saveFigureUpdate_send (key_of (selectedFigure st1)) newX2 newY2
                       (a_shape figureData) (a_size figureData) st1;
               st3 = showMessage ''Moved ${stepText}'' ''info'' st2
           in Inr (saveFigureUpdate_resume resp now st3)))"

section \<open>Mouse and keyboard interaction (module interactions)\<close>

text \<open>
  \<open>handleMouseMove\<close> is a sequence of independent blocks, each guarded by its own flags.
  \<open>mouseX\<close> and \<open>mouseY\<close> are the position relative to the container. The blocks that
  write \<open>STATE\<close> are modelled in source order: panning, the polygon block, figure
  dragging, figure resizing and endpoint dragging. The throttled position read-out and
  the two preview blocks write to the page only and are left out.
\<close>

definition handleMouseMove_pan :: "real \<Rightarrow> real \<Rightarrow> STATE \<Rightarrow> STATE" where
  "handleMouseMove_pan mouseX mouseY st =
     (if isDragging st \<and> \<not> isAnnotationMode st
      then (let deltaX = mouseX - startDragX st;
                deltaY = mouseY - startDragY st
            in st\<lparr> translateX := translateX st + deltaX, translateY := translateY st + deltaY,
                    startDragX := mouseX, startDragY := mouseY \<rparr>)
      else st)"

definition handleMouseMove_figureDragging :: "real \<Rightarrow> real \<Rightarrow> STATE \<Rightarrow> js_error + STATE" where
  "handleMouseMove_figureDragging mouseX mouseY st =
     (if figureDragging st \<and> truthy (selectedFigure st)
      then
        let newDisplayX = mouseX + figureDragOffsetX st;
            newDisplayY = mouseY + figureDragOffsetY st;
            newImageCoords = displayToImageCoords st newDisplayX newDisplayY
        in case obj_get (annotations st) (key_of (selectedFigure st)) of
             None \<Rightarrow> Inl TypeError
           | Some figureData \<Rightarrow>
               if a_shape figureData = Some ''line''
               then
                 let deltaX = map_option (\<lambda>v. fst newImageCoords - v) (figureOriginalX st);
                     deltaY = map_option (\<lambda>v. snd newImageCoords - v) (figureOriginalY st)
                 in Inr (st\<lparr> annotations :=
                          obj_set (key_of (selectedFigure st))
                            (figureData\<lparr>
                               a_startX := num2 (+) (figureOriginalStartX st) deltaX,
                               a_startY := num2 (+) (figureOriginalStartY st) deltaY,
                               a_endX := num2 (+) (figureOriginalEndX st) deltaX,
                               a_endY := num2 (+) (figureOriginalEndY st) deltaY,
                               a_x := Some (fst newImageCoords),
                               a_y := Some (snd newImageCoords) \<rparr>)
                            (annotations st) \<rparr>)
               else Inr (updateFigurePosition (key_of (selectedFigure st))
                           (Some (fst newImageCoords)) (Some (snd newImageCoords)) st)
      else Inr st)"

definition handleMouseMove_figureResizing :: "real \<Rightarrow> real \<Rightarrow> STATE \<Rightarrow> STATE" where
  "handleMouseMove_figureResizing mouseX mouseY st =
     (if figureResizing st \<and> truthy (selectedFigure st) \<and> truthy (resizeHandle st)
      then
        let deltaX = mouseX - figureDragStartX st;
            deltaY = mouseY - figureDragStartY st;
            handle = key_of (resizeHandle st);
            sizeChange0 = 0;
            sizeChange1 = (if CHR ''e'' \<in> set handle
                           then sizeChange0 + deltaX / currentZoom st else sizeChange0);
            sizeChange2 = (if CHR ''w'' \<in> set handle
                           then sizeChange1 - deltaX / currentZoom st else sizeChange1);
            sizeChange3 = (if CHR ''s'' \<in> set handle
                           then sizeChange2 + deltaY / currentZoom st else sizeChange2);
            sizeChange = (if CHR ''n'' \<in> set handle
                          then sizeChange3 - deltaY / currentZoom st else sizeChange3);
            newSize = map_option (\<lambda>v. v + sizeChange) (figureOriginalSize st)
        in updateFigureSize (key_of (selectedFigure st)) newSize st
      else st)"

definition handleMouseMove_linePointDragging :: "point \<Rightarrow> STATE \<Rightarrow> js_error + STATE" where
  "handleMouseMove_linePointDragging coords st =
     (if linePointDragging st \<and> truthy (linePointDraggedFigure st)
      then case obj_get (annotations st) (key_of (linePointDraggedFigure st)) of
             None \<Rightarrow> Inl TypeError
           | Some figureData \<Rightarrow>
               (let fd1 = (if linePointDraggedType st = Some ''start''
                           then figureData\<lparr> a_startX := Some (fst coords),
                                  a_startY := Some (snd coords) \<rparr>
                           else if linePointDraggedType st = Some ''end''
                           then figureData\<lparr> a_endX := Some (fst coords),
                                  a_endY := Some (snd coords) \<rparr>
                           else figureData);
                    fd2 = fd1\<lparr> a_x := num2 (\<lambda>a b. (a + b) / 2) (a_startX fd1) (a_endX fd1),
                               a_y := num2 (\<lambda>a b. (a + b) / 2) (a_startY fd1) (a_endY fd1) \<rparr>;
                    dx = num2 (-) (a_endX fd2) (a_startX fd2);
                    dy = num2 (-) (a_endY fd2) (a_startY fd2);
                    fd3 = fd2\<lparr> a_size := num2 (\<lambda>u v. sqrt (u * u + v * v)) dx dy \<rparr>
                in Inr (st\<lparr> annotations :=
                         obj_set (key_of (linePointDraggedFigure st)) fd3 (annotations st) \<rparr>))
      else Inr st)"

definition handleMouseMove :: "real \<Rightarrow> real \<Rightarrow> STATE \<Rightarrow> js_error + STATE" where
  "handleMouseMove mouseX mouseY st =
     (if \<not> imageLoaded st then Inr st
      else
        let coords = eventToImageCoords st mouseX mouseY;
            st1 = handleMouseMove_pan mouseX mouseY st
        in case (if polygonDragging st1 \<and> currentTool st1 = ''polygon''
                 then handlePolygonDrag coords st1 else Inr st1) of
             Inl err \<Rightarrow> Inl err
           | Inr st2 \<Rightarrow>
               (case handleMouseMove_figureDragging mouseX mouseY st2 of
                  Inl err \<Rightarrow> Inl err
                | Inr st3 \<Rightarrow>
                    handleMouseMove_linePointDragging coords
                      (handleMouseMove_figureResizing mouseX mouseY st3)))"



section \<open>Rendering (rendering.js)\<close>

text \<open>
  The palette of the state module. A render pass empties the page of annotation nodes and
  rebuilds them from the store; the model returns the nodes it appends, each with the
  class of its element, the label and the colour it was given.
\<close>

definition COLORS :: "string list" where
  "COLORS = [''#ff0000'', ''#00ff00'', ''#0000ff'', ''#ffff00'',
             ''#ff00ff'', ''#00ffff'', ''#ff8000'', ''#8000ff'',
             ''#ff0080'', ''#80ff00'', ''#0080ff'', ''#8000ff'']"

record node =
  n_class :: string
  n_name :: string
  n_color :: string

definition renderLandmarkPoint :: "STATE \<Rightarrow> string \<Rightarrow> point \<Rightarrow> string \<Rightarrow> node list" where
  "renderLandmarkPoint st name coords color =
     (if \<not> isWithinImageBounds st (fst coords) (snd coords) then []
      else [\<lparr> n_class = ''annotation-point'', n_name = name, n_color = color \<rparr>])"

definition renderPolygonShape :: "point list \<Rightarrow> string \<Rightarrow> string \<Rightarrow> node list" where
  "renderPolygonShape points color name =
     (if length points < 3 then []
      else [\<lparr> n_class = ''polygon-shape'', n_name = name, n_color = color \<rparr>])"

definition renderFigure :: "annotation \<Rightarrow> string \<Rightarrow> string \<Rightarrow> node list" where
  "renderFigure data color name =
     [\<lparr> n_class = ''figure-shape'', n_name = name, n_color = color \<rparr>]"

text \<open>
  The body of the \<open>forEach\<close> over \<open>Object.entries(STATE.annotations)\<close>, and the loop
  itself with its running index.
\<close>

definition render_entry :: "STATE \<Rightarrow> string \<times> annotation \<Rightarrow> nat \<Rightarrow> node list" where
  "render_entry st entry index =
     (let name = fst entry; data = snd entry
      in if obj_get (visibilityToggles st) name = Some False then []
         else
           let color = COLORS ! (index mod length COLORS)
           in if a_type data = Some ''polygon'' \<and> a_points data \<noteq> None
              then renderPolygonShape (the (a_points data)) color name
              else if a_type data = Some ''figure''
              then renderFigure data color name
              else if a_status data = Some ''ok'' \<and> a_coordinates data \<noteq> None
              then renderLandmarkPoint st name (the (a_coordinates data)) color
              else [])"

fun render_entries :: "STATE \<Rightarrow> (string \<times> annotation) list \<Rightarrow> nat \<Rightarrow> node list" where
  "render_entries st [] index = []"
| "render_entries st (entry # rest) index =
     render_entry st entry index @ render_entries st rest (index + 1)"

text \<open>
  The fingerprint of \<open>getAnnotationsHash\<close> is the JSON text of six fields of \<open>STATE\<close>;
  the model keeps the six values. \<open>RENDER_STATE.annotationsHash\<close> starts as the empty
  string, which is no fingerprint: \<open>None\<close>. A call of \<open>renderAnnotations\<close> takes the cache
  and the nodes on the page and returns both.
\<close>

type_synonym fingerprint =
  "annotation obj \<times> bool obj \<times> real \<times> real \<times> real \<times> string option"

definition getAnnotationsHash :: "STATE \<Rightarrow> fingerprint" where
  "getAnnotationsHash st =
     (annotations st, visibilityToggles st, currentZoom st, translateX st, translateY st,
      selectedLabel st)"

definition renderAnnotations ::
  "bool \<Rightarrow> STATE \<Rightarrow> fingerprint option \<times> node list \<Rightarrow> fingerprint option \<times> node list" where
  "renderAnnotations force st page =
     (let currentHash = getAnnotationsHash st
      in if \<not> force \<and> Some currentHash = fst page then page
         else (Some currentHash, render_entries st (annotations st) 0))"

section \<open>Vocabulary of the properties\<close>

text \<open>
  The invariants of the view and of the history. \<open>zoom_ok\<close>: the zoom lies between its
  two limits. \<open>hist_ok\<close>: the history holds at most 50 snapshots and the cursor points
  at one of them. \<open>at_newest\<close>: the cursor points at the last snapshot.
\<close>

definition zoom_ok :: "STATE \<Rightarrow> bool" where
  "zoom_ok st \<longleftrightarrow> maxZoom st = 1000 \<and> 0.1 \<le> currentZoom st \<and> currentZoom st \<le> 1000"

definition hist_ok :: "STATE \<Rightarrow> bool" where
  "hist_ok st \<longleftrightarrow> maxHistorySize st = 50 \<and> length (history st) \<le> 50
     \<and> 0 \<le> historyIndex st \<and> historyIndex st < int (length (history st))"

definition at_newest :: "STATE \<Rightarrow> bool" where
  "at_newest st \<longleftrightarrow> historyIndex st = int (length (history st)) - 1"

text \<open>
  The size a circle or rectangle gesture has before rounding: twice the distance from the
  centre fixed at pointer-down to the cursor.
\<close>

definition drawn_size :: "STATE \<Rightarrow> point \<Rightarrow> real" where
  "drawn_size st coords =
     sqrt ((fst coords - figureStartX st) * (fst coords - figureStartX st)
           + (snd coords - figureStartY st) * (snd coords - figureStartY st)) * 2"

text \<open>
  The line invariant, on a store entry: the centre is the midpoint of the two endpoints,
  and the size is within \<open>tol\<close> of their Euclidean distance.
\<close>

definition point_distance :: "point \<Rightarrow> point \<Rightarrow> real" where
  "point_distance p q =
     sqrt ((fst q - fst p) * (fst q - fst p) + (snd q - snd p) * (snd q - snd p))"

definition line_length :: "annotation \<Rightarrow> real option" where
  "line_length a =
     num2 (\<lambda>u v. sqrt (u * u + v * v))
       (num2 (-) (a_endX a) (a_startX a)) (num2 (-) (a_endY a) (a_startY a))"

definition line_centred :: "annotation \<Rightarrow> bool" where
  "line_centred a \<longleftrightarrow>
     (case num2 (\<lambda>u v. (u + v) / 2) (a_startX a) (a_endX a) of
        None \<Rightarrow> False | Some mx \<Rightarrow> a_x a = Some mx)
     \<and> (case num2 (\<lambda>u v. (u + v) / 2) (a_startY a) (a_endY a) of
        None \<Rightarrow> False | Some my \<Rightarrow> a_y a = Some my)"

definition line_sized :: "real \<Rightarrow> annotation \<Rightarrow> bool" where
  "line_sized tol a \<longleftrightarrow>
     (case a_size a of
        None \<Rightarrow> False
      | Some s \<Rightarrow> (case line_length a of None \<Rightarrow> False | Some l \<Rightarrow> \<bar>s - l\<bar> \<le> tol))"

text \<open>
  A drag of the whole line \<open>f\<close> is under way, it was started on the entry \<open>fd\<close>, and no
  other interaction is: the image is loaded, the drag flag is set and the flags of a
  polygon drag, a resize and an endpoint drag are not, \<open>f\<close> is the selected figure, its
  entry is a line with the size of \<open>fd\<close>, and the six remembered coordinates are the
  centre and the endpoints of \<open>fd\<close>.
\<close>

definition line_drag :: "string \<Rightarrow> annotation \<Rightarrow> STATE \<Rightarrow> bool" where
  "line_drag f fd st \<longleftrightarrow>
     imageLoaded st \<and> figureDragging st \<and> selectedFigure st = Some f \<and> f \<noteq> []
     \<and> \<not> polygonDragging st \<and> \<not> figureResizing st \<and> \<not> linePointDragging st
     \<and> (case obj_get (annotations st) f of
           None \<Rightarrow> False
         | Some cur \<Rightarrow> a_shape cur = Some ''line'' \<and> a_size cur = a_size fd)
     \<and> figureOriginalX st = a_x fd \<and> figureOriginalY st = a_y fd
     \<and> figureOriginalStartX st = a_startX fd \<and> figureOriginalStartY st = a_startY fd
     \<and> figureOriginalEndX st = a_endX fd \<and> figureOriginalEndY st = a_endY fd"

text \<open>
  States for the worked examples: a loaded 200 by 200 image with no annotations, a tool,
  a selected label and a figure shape chosen.
\<close>

definition sample_tool_state :: "string \<Rightarrow> string \<Rightarrow> string \<Rightarrow> STATE" where
  "sample_tool_state tool name shape =
     (initial_STATE [])
       \<lparr> currentTool := tool, selectedLabel := Some name, imageLoaded := True,
         naturalWidth := 200, naturalHeight := 200, figureShape := shape \<rparr>"

text \<open>Two store entries for the worked examples: a line from (20, 20) to (20, 40), and
  a circle of size 20 around (10, 10).\<close>

definition sample_line :: annotation where
  "sample_line = no_fields\<lparr> a_type := Some ''figure'', a_status := Some ''ok'',
     a_x := Some 20, a_y := Some 30, a_shape := Some ''line'', a_size := Some 20,
     a_startX := Some 20, a_startY := Some 20, a_endX := Some 20, a_endY := Some 40,
     a_timestamp := Some ''t0'' \<rparr>"


text \<open>
  A loaded 200 by 200 image in panning mode with the sample line under the label \<open>L1\<close>.
\<close>

definition sample_line_state :: STATE where
  "sample_line_state =
     (initial_STATE [(''L1'', sample_line)])
       \<lparr> imageLoaded := True, naturalWidth := 200, naturalHeight := 200,
         isAnnotationMode := False \<rparr>"

text \<open>
  The nudge in the words of the specification: the step chosen by the modifier keys, the
  centre moved by the step along the axis of the arrow, and the result clamped into the
  image rectangle.
\<close>

definition nudge_step :: "bool \<Rightarrow> bool \<Rightarrow> bool \<Rightarrow> real" where
  "nudge_step shiftKey ctrlKey metaKey =
     (if shiftKey then 10 else if ctrlKey \<or> metaKey then 1 / 2 else 1)"

definition nudge_target :: "string \<Rightarrow> real \<Rightarrow> point \<Rightarrow> point" where
  "nudge_target direction step c =
     (if direction = ''ArrowUp'' then (fst c, snd c - step)
      else if direction = ''ArrowDown'' then (fst c, snd c + step)
      else if direction = ''ArrowLeft'' then (fst c - step, snd c)
      else if direction = ''ArrowRight'' then (fst c + step, snd c)
      else c)"

definition clamp_to_image :: "STATE \<Rightarrow> point \<Rightarrow> point" where
  "clamp_to_image st c =
     (max 0 (min (naturalWidth st) (fst c)), max 0 (min (naturalHeight st) (snd c)))"

text \<open>Three landmarks, the second one hidden, in a 200 by 200 image.\<close>

definition sample_landmark :: "real \<Rightarrow> real \<Rightarrow> annotation" where
  "sample_landmark x y = no_fields\<lparr> a_status := Some ''ok'', a_coordinates := Some (x, y),
     a_timestamp := Some ''t0'' \<rparr>"

definition sample_scene_state :: STATE where
  "sample_scene_state =
     (initial_STATE [(''A'', sample_landmark 10 10), (''B'', sample_landmark 20 20),
                     (''C'', sample_landmark 30 30)])
       \<lparr> visibilityToggles := [(''A'', True), (''B'', False), (''C'', True)],
         naturalWidth := 200, naturalHeight := 200 \<rparr>"




text \<open>
  The change of size that the pointer displacement \<open>(dx, dy)\<close> means for a resize
  handle: east and south edges add their displacement, west and north edges subtract it,
  all in image units.
\<close>

definition resize_change :: "string \<Rightarrow> real \<Rightarrow> real \<Rightarrow> real \<Rightarrow> real" where
  "resize_change handle dx dy zoom =
     (if CHR ''e'' \<in> set handle then dx / zoom else 0)
     - (if CHR ''w'' \<in> set handle then dx / zoom else 0)
     + (if CHR ''s'' \<in> set handle then dy / zoom else 0)
     - (if CHR ''n'' \<in> set handle then dy / zoom else 0)"


definition resized_to ::
  "STATE \<Rightarrow> string \<Rightarrow> real \<Rightarrow> real \<Rightarrow> (real \<times> real) list \<Rightarrow> annotation \<Rightarrow> annotation" where
  "resized_to st handle mx my ms fd =
     (if ms = [] then fd
      else fd\<lparr> a_size :=
                 map_option
                   (\<lambda>v. max 10 (v + resize_change handle (fst (last ms) - mx)
                                       (snd (last ms) - my) (currentZoom st)))
                   (a_size fd) \<rparr>)"



section \<open>Coordinate round trip\<close>

text \<open>
  C2. For every image-space point and every zoom greater than zero and any pan offsets,
  converting the point to display coordinates and back gives the point again (exactly,
  over the real numbers).
\<close>

theorem displayToImage_imageToDisplay:
  assumes "currentZoom st > 0"
  shows "displayToImageCoords st (fst (imageToDisplayCoords st x y))
           (snd (imageToDisplayCoords st x y)) = (x, y)"
  using assms by (simp add: displayToImageCoords_def imageToDisplayCoords_def)

theorem displayToImage_imageToDisplay_witness:
  "currentZoom ((initial_STATE [])\<lparr> currentZoom := 2, translateX := 5, translateY := - 3 \<rparr>) > 0
   \<and> displayToImageCoords ((initial_STATE [])\<lparr> currentZoom := 2, translateX := 5, translateY := - 3 \<rparr>)
        (fst (imageToDisplayCoords ((initial_STATE [])\<lparr> currentZoom := 2, translateX := 5, translateY := - 3 \<rparr>) 7 11))
        (snd (imageToDisplayCoords ((initial_STATE [])\<lparr> currentZoom := 2, translateX := 5, translateY := - 3 \<rparr>) 7 11))
      = (7, 11)"
  using displayToImage_imageToDisplay
    [of "(initial_STATE [])\<lparr> currentZoom := 2, translateX := 5, translateY := - 3 \<rparr>" 7 11]
  by simp

section \<open>Zoom bounds\<close>

lemma zoom_ok_initial: "zoom_ok (initial_STATE anns)"
  by (simp add: zoom_ok_def initial_STATE_def)

lemma zoom_ok_zoomIn: "zoom_ok st \<Longrightarrow> zoom_ok (zoomIn st)"
  by (auto simp: zoom_ok_def zoomIn_def min_def)

lemma zoom_ok_zoomOut: "zoom_ok st \<Longrightarrow> zoom_ok (zoomOut st)"
  by (auto simp: zoom_ok_def zoomOut_def max_def)

lemma zoom_ok_handleWheel: "zoom_ok st \<Longrightarrow> zoom_ok (handleWheel d mx my st)"
  by (auto simp: zoom_ok_def handleWheel_def Let_def min_def max_def)

lemma zoom_ok_resetView: "zoom_ok st \<Longrightarrow> zoom_ok (resetView w h st)"
  by (auto simp: zoom_ok_def resetView_def Let_def)

lemma zoom_ok_handleImageLoad: "zoom_ok st \<Longrightarrow> zoom_ok (handleImageLoad iw ih w h st)"
  by (auto simp: zoom_ok_def handleImageLoad_def resetView_def Let_def)

lemma zoom_ok_view_step: "zoom_ok st \<Longrightarrow> zoom_ok (view_step e st)"
  by (cases e)
     (simp_all add: zoom_ok_zoomIn zoom_ok_zoomOut zoom_ok_handleWheel zoom_ok_resetView
        zoom_ok_handleImageLoad)

lemma zoom_ok_view_run: "zoom_ok st \<Longrightarrow> zoom_ok (view_run es st)"
  by (induction es arbitrary: st) (simp_all add: zoom_ok_view_step)

text \<open>
  C9. After any sequence of \<open>zoomIn\<close>, \<open>zoomOut\<close>, \<open>handleWheel\<close> and \<open>resetView\<close> calls
  (and image loads, which reset the view) from the initial state, \<open>currentZoom\<close> lies in
  the interval from 0.1 to 1000; so it is never zero, and the divisor of
  \<open>displayToImageCoords\<close> and \<open>eventToImageCoords\<close> is never zero.
\<close>

theorem currentZoom_bounds:
  "0.1 \<le> currentZoom (view_run es (initial_STATE anns))
   \<and> currentZoom (view_run es (initial_STATE anns)) \<le> 1000
   \<and> currentZoom (view_run es (initial_STATE anns)) \<noteq> 0"
  using zoom_ok_view_run [OF zoom_ok_initial, of es anns]
  by (simp add: zoom_ok_def)

section \<open>History bounds\<close>

lemma hist_ok_initializeApp: "hist_ok (initializeApp anns now)"
  by (simp add: hist_ok_def initializeApp_def saveToHistory_def initial_STATE_def Let_def slice0_def)

lemma saveToHistory_fields:
  assumes "hist_ok st"
  shows "history (saveToHistory now st) =
     (if historyIndex st = 49
      then tl (history st) @ [\<lparr> h_annotations = annotations st, h_timestamp = now \<rparr>]
      else take (nat (historyIndex st + 1)) (history st)
             @ [\<lparr> h_annotations = annotations st, h_timestamp = now \<rparr>])"
    and "historyIndex (saveToHistory now st) = min 49 (historyIndex st + 1)"
    and "maxHistorySize (saveToHistory now st) = maxHistorySize st"
    and "annotations (saveToHistory now st) = annotations st"
  using assms
  by (auto simp: hist_ok_def saveToHistory_def Let_def slice0_def deepClone_def tl_append
           split: list.splits)

lemma hist_ok_saveToHistory: "hist_ok st \<Longrightarrow> hist_ok (saveToHistory now st)"
  using saveToHistory_fields [of st now]
  by (auto simp: hist_ok_def)

lemma undo_ok:
  assumes "hist_ok st"
  shows "\<exists>st'. undo st = Inr st' \<and> hist_ok st' \<and> history st' = history st
           \<and> historyIndex st' = max 0 (historyIndex st - 1)
           \<and> (0 < historyIndex st \<longrightarrow>
                annotations st' = h_annotations (history st ! nat (historyIndex st - 1)))"
  using assms
  by (auto simp: hist_ok_def undo_def history_at_def showMessage_def deepClone_def Let_def)

lemma redo_ok:
  assumes "hist_ok st"
  shows "\<exists>st'. redo st = Inr st' \<and> hist_ok st'"
  using assms
  by (auto simp: hist_ok_def redo_def history_at_def showMessage_def deepClone_def Let_def)

lemma hist_step_ok:
  assumes "hist_ok st"
  shows "\<exists>st'. hist_step e st = Inr st' \<and> hist_ok st'"
proof (cases e)
  case (Mutation a t)
  have "hist_ok (st\<lparr> annotations := a \<rparr>)" using assms by (simp add: hist_ok_def)
  then show ?thesis using Mutation by (simp add: mutation_def hist_ok_saveToHistory)
next
  case Undo
  then show ?thesis using undo_ok [OF assms] by auto
next
  case Redo
  then show ?thesis using redo_ok [OF assms] by auto
qed

lemma hist_run_ok:
  "hist_ok st \<Longrightarrow> \<exists>st'. hist_run es st = Inr st' \<and> hist_ok st'"
proof (induction es arbitrary: st)
  case Nil
  then show ?case by simp
next
  case (Cons e es)
  from hist_step_ok [OF Cons.prems, of e]
  obtain st1 where s: "hist_step e st = Inr st1" and ok: "hist_ok st1" by blast
  from Cons.IH [OF ok] show ?case using s by simp
qed

lemma undo_at_0: "historyIndex st \<le> 0 \<Longrightarrow> undo st = Inr st"
  by (simp add: undo_def)

lemma undo_times_at_0: "historyIndex st \<le> 0 \<Longrightarrow> undo_times n st = Inr st"
  by (induction n) (simp_all add: undo_at_0)

lemma undo_times_ok:
  "hist_ok st \<Longrightarrow> nat (historyIndex st) \<le> n \<Longrightarrow>
   \<exists>st'. undo_times n st = Inr st' \<and> historyIndex st' = 0 \<and> history st' = history st
      \<and> (0 < historyIndex st \<longrightarrow> annotations st' = h_annotations (hd (history st)))"
proof (induction n arbitrary: st)
  case 0
  then show ?case by (simp add: hist_ok_def)
next
  case (Suc n)
  from undo_ok [OF Suc.prems(1)]
  obtain st1 where u: "undo st = Inr st1" and ok: "hist_ok st1"
    and h: "history st1 = history st"
    and i: "historyIndex st1 = max 0 (historyIndex st - 1)"
    and a: "0 < historyIndex st \<longrightarrow>
              annotations st1 = h_annotations (history st ! nat (historyIndex st - 1))"
    by blast
  have le: "nat (historyIndex st1) \<le> n" using Suc.prems(2) i by auto
  from Suc.IH [OF ok le]
  obtain st2 where r: "undo_times n st1 = Inr st2" and i2: "historyIndex st2 = 0"
    and h2: "history st2 = history st1"
    and a2: "0 < historyIndex st1 \<longrightarrow> annotations st2 = h_annotations (hd (history st1))"
    by blast
  have ne: "history st \<noteq> []" using Suc.prems(1) by (auto simp: hist_ok_def)
  show ?case
  proof (cases "0 < historyIndex st1")
    case True
    then show ?thesis using u r i2 h2 a2 h i by (simp split: if_splits)
  next
    case False
    then have z: "historyIndex st1 = 0" using ok by (simp add: hist_ok_def)
    then have r': "undo_times n st1 = Inr st1" by (simp add: undo_times_at_0)
    have "0 < historyIndex st \<longrightarrow> historyIndex st = 1" using i z by auto
    then have "0 < historyIndex st \<longrightarrow> annotations st1 = h_annotations (hd (history st))"
      using a ne by (auto simp: hd_conv_nth)
    then show ?thesis using u r' z h by simp
  qed
qed

lemma mutation_ok:
  assumes "hist_ok st"
  shows "hist_ok (mutation a t st)"
    and "historyIndex (mutation a t st) = int (length (history (mutation a t st))) - 1"
    and "h_annotations (last (history (mutation a t st))) = a"
    and "annotations (mutation a t st) = a"
    and "length (history (mutation a t st)) = min 50 (nat (historyIndex st) + 2)"
    and "length (history st) = 50 \<and> historyIndex st = 49 \<longrightarrow>
           history (mutation a t st) = tl (history st) @ [\<lparr> h_annotations = a, h_timestamp = t \<rparr>]"
proof -
  have ok: "hist_ok (st\<lparr> annotations := a \<rparr>)" using assms by (simp add: hist_ok_def)
  show "hist_ok (mutation a t st)" using ok by (simp add: mutation_def hist_ok_saveToHistory)
  show "historyIndex (mutation a t st) = int (length (history (mutation a t st))) - 1"
    using assms saveToHistory_fields(1,2) [OF ok, of t]
    by (auto simp: mutation_def hist_ok_def)
  show "h_annotations (last (history (mutation a t st))) = a"
    using saveToHistory_fields(1) [OF ok, of t] by (simp add: mutation_def)
  show "annotations (mutation a t st) = a"
    using saveToHistory_fields(4) [OF ok, of t] by (simp add: mutation_def)
  show "length (history (mutation a t st)) = min 50 (nat (historyIndex st) + 2)"
    using assms saveToHistory_fields(1) [OF ok, of t]
    by (auto simp: mutation_def hist_ok_def)
  show "length (history st) = 50 \<and> historyIndex st = 49 \<longrightarrow>
           history (mutation a t st) = tl (history st) @ [\<lparr> h_annotations = a, h_timestamp = t \<rparr>]"
    using saveToHistory_fields(1) [OF ok, of t] by (simp add: mutation_def)
qed

lemma mutations_length:
  "hist_ok st \<Longrightarrow> at_newest st \<Longrightarrow> \<forall>e\<in>set es. is_Mutation e \<Longrightarrow>
   \<exists>st'. hist_run es st = Inr st' \<and> at_newest st'
      \<and> length (history st') = min 50 (length (history st) + length es)"
proof (induction es arbitrary: st)
  case Nil
  then show ?case by (simp add: hist_ok_def)
next
  case (Cons e es)
  from Cons.prems(3) obtain a t where e: "e = Mutation a t" by (cases e) auto
  let ?s = "mutation a t st"
  have ok: "hist_ok ?s" and nw: "at_newest ?s"
    and len: "length (history ?s) = min 50 (nat (historyIndex st) + 2)"
    using mutation_ok(1,2,5) [OF Cons.prems(1), of a t] by (simp_all add: at_newest_def)
  have rest: "\<forall>e\<in>set es. is_Mutation e" using Cons.prems(3) by simp
  from Cons.IH [OF ok nw rest]
  obtain st' where r: "hist_run es ?s = Inr st'" and n': "at_newest st'"
    and l': "length (history st') = min 50 (length (history ?s) + length es)" by blast
  have idx: "nat (historyIndex st) + 1 = length (history st)"
    using Cons.prems(1,2) unfolding at_newest_def hist_ok_def by linarith
  have "length (history ?s) = min 50 (length (history st) + 1)"
    using len idx by linarith
  then show ?case using r n' l' e by auto
qed

text \<open>
  C3. For every sequence of successful mutations, undos and redos after start-up: the
  history never holds more than 50 entries and the cursor stays between 0 and the last
  index; a run of mutations only (60 of them, say) leaves \<open>min 50 (n + 1)\<close> entries with
  the cursor on the newest one; a further mutation at capacity drops the oldest entry;
  \<open>undo\<close> at cursor 0 changes nothing; and undoing at least as many times as the cursor
  is high ends at cursor 0 with the oldest retained snapshot in the store.
\<close>

theorem history_bounds:
  "\<exists>st. hist_run ops (initializeApp anns now) = Inr st
     \<and> length (history st) \<le> 50
     \<and> 0 \<le> historyIndex st \<and> historyIndex st \<le> int (length (history st)) - 1
     \<and> ((\<forall>e\<in>set ops. is_Mutation e) \<longrightarrow>
           length (history st) = min 50 (length ops + 1)
           \<and> historyIndex st = int (length (history st)) - 1)
     \<and> (historyIndex st = 0 \<longrightarrow> undo st = Inr st)
     \<and> (\<forall>a t. length (history (mutation a t st)) \<le> 50
           \<and> historyIndex (mutation a t st) = int (length (history (mutation a t st))) - 1
           \<and> h_annotations (last (history (mutation a t st))) = a
           \<and> (length (history st) = 50 \<and> historyIndex st = 49 \<longrightarrow>
                history (mutation a t st)
                  = tl (history st) @ [\<lparr> h_annotations = a, h_timestamp = t \<rparr>]))
     \<and> (\<forall>n. nat (historyIndex st) \<le> n \<longrightarrow>
           (\<exists>st'. undo_times n st = Inr st' \<and> historyIndex st' = 0
              \<and> history st' = history st
              \<and> (0 < historyIndex st \<longrightarrow>
                    annotations st' = h_annotations (hd (history st)))))"
proof -
  let ?i = "initializeApp anns now"
  have ok0: "hist_ok ?i" by (rule hist_ok_initializeApp)
  from hist_run_ok [OF ok0, of ops]
  obtain st where run: "hist_run ops ?i = Inr st" and ok: "hist_ok st" by blast
  have b: "length (history st) \<le> 50" "0 \<le> historyIndex st"
    "historyIndex st \<le> int (length (history st)) - 1"
    using ok by (auto simp: hist_ok_def)
  have m: "(\<forall>e\<in>set ops. is_Mutation e) \<longrightarrow>
           length (history st) = min 50 (length ops + 1)
           \<and> historyIndex st = int (length (history st)) - 1"
  proof
    assume all: "\<forall>e\<in>set ops. is_Mutation e"
    have nw: "at_newest ?i" and l0: "length (history ?i) = 1"
      by (simp_all add: at_newest_def initializeApp_def saveToHistory_def initial_STATE_def
            Let_def slice0_def)
    from mutations_length [OF ok0 nw all]
    show "length (history st) = min 50 (length ops + 1)
           \<and> historyIndex st = int (length (history st)) - 1"
      using run l0 by (auto simp: at_newest_def)
  qed
  have u0: "historyIndex st = 0 \<longrightarrow> undo st = Inr st" by (simp add: undo_at_0)
  have mu: "\<forall>a t. length (history (mutation a t st)) \<le> 50
           \<and> historyIndex (mutation a t st) = int (length (history (mutation a t st))) - 1
           \<and> h_annotations (last (history (mutation a t st))) = a
           \<and> (length (history st) = 50 \<and> historyIndex st = 49 \<longrightarrow>
                history (mutation a t st)
                  = tl (history st) @ [\<lparr> h_annotations = a, h_timestamp = t \<rparr>])"
    using mutation_ok [OF ok] by (simp add: hist_ok_def)
  have un: "\<forall>n. nat (historyIndex st) \<le> n \<longrightarrow>
           (\<exists>st'. undo_times n st = Inr st' \<and> historyIndex st' = 0
              \<and> history st' = history st
              \<and> (0 < historyIndex st \<longrightarrow>
                    annotations st' = h_annotations (hd (history st))))"
    using undo_times_ok [OF ok] by blast
  show ?thesis using run b m u0 mu un by blast
qed

theorem history_bounds_witness:
  "(\<exists>st. hist_run (replicate 60 (Mutation [] ''t1'')) (initializeApp [] ''t0'') = Inr st
      \<and> length (history st) = 50 \<and> historyIndex st = 49
      \<and> (\<exists>st'. undo_times 49 st = Inr st' \<and> historyIndex st' = 0
            \<and> annotations st' = h_annotations (hd (history st))))
   \<and> historyIndex (initializeApp [] ''t0'') = 0
   \<and> undo (initializeApp [] ''t0'') = Inr (initializeApp [] ''t0'')"
proof -
  from history_bounds [of "replicate 60 (Mutation [] ''t1'')" "[]" "''t0''"]
  obtain st where run: "hist_run (replicate 60 (Mutation [] ''t1'')) (initializeApp [] ''t0'') = Inr st"
    and m: "(\<forall>e\<in>set (replicate 60 (Mutation [] ''t1'')). is_Mutation e) \<longrightarrow>
           length (history st) = min 50 (length (replicate 60 (Mutation [] ''t1'')) + 1)
           \<and> historyIndex st = int (length (history st)) - 1"
    and un: "\<forall>n. nat (historyIndex st) \<le> n \<longrightarrow>
           (\<exists>st'. undo_times n st = Inr st' \<and> historyIndex st' = 0
              \<and> history st' = history st
              \<and> (0 < historyIndex st \<longrightarrow>
                    annotations st' = h_annotations (hd (history st))))"
    by blast
  have l: "length (history st) = 50" and i: "historyIndex st = 49" using m by simp_all
  from un i obtain st' where "undo_times 49 st = Inr st'" "historyIndex st' = 0"
    "annotations st' = h_annotations (hd (history st))" by force
  then have first: "\<exists>st. hist_run (replicate 60 (Mutation [] ''t1'')) (initializeApp [] ''t0'') = Inr st
      \<and> length (history st) = 50 \<and> historyIndex st = 49
      \<and> (\<exists>st'. undo_times 49 st = Inr st' \<and> historyIndex st' = 0
            \<and> annotations st' = h_annotations (hd (history st)))"
    using run l i by blast
  have i0: "historyIndex (initializeApp [] ''t0'') = 0"
    by (simp add: initializeApp_def saveToHistory_def initial_STATE_def Let_def slice0_def)
  from history_bounds [of "[]" "[]" "''t0''"] i0
  have "undo (initializeApp [] ''t0'') = Inr (initializeApp [] ''t0'')" by simp
  then show ?thesis using first i0 by blast
qed

section \<open>Store and log lemmas; the occluded action\<close>

lemma obj_get_obj_set: "obj_get (obj_set k v ob) k' = (if k' = k then Some v else obj_get ob k')"
  by (induction ob) (auto simp: obj_get_def)

lemma obj_get_obj_delete:
  "obj_get (obj_delete k ob) k' = (if k' = k then None else obj_get ob k')"
  by (induction ob) (auto simp: obj_get_def obj_delete_def)

lemma saveToHistory_keeps:
  "annotations (saveToHistory now st) = annotations st"
  "messages (saveToHistory now st) = messages st"
  "requests (saveToHistory now st) = requests st"
  "selectedLabel (saveToHistory now st) = selectedLabel st"
  by (simp_all add: saveToHistory_def Let_def)

lemma showMessage_keeps:
  "annotations (showMessage txt ty st) = annotations st"
  "requests (showMessage txt ty st) = requests st"
  "history (showMessage txt ty st) = history st"
  "historyIndex (showMessage txt ty st) = historyIndex st"
  "messages (showMessage txt ty st) = messages st @ [(txt, ty)]"
  by (simp_all add: showMessage_def)

lemma fetch_keeps:
  "annotations (fetch ep name act flds st) = annotations st"
  "messages (fetch ep name act flds st) = messages st"
  "history (fetch ep name act flds st) = history st"
  "historyIndex (fetch ep name act flds st) = historyIndex st"
  "selectedLabel (fetch ep name act flds st) = selectedLabel st"
  "requests (fetch ep name act flds st)
     = requests st @ [\<lparr> endpoint = ep, label = name, action = act, body = flds \<rparr>]"
  by (simp_all add: fetch_def)

text \<open>
  C6. On a successful \<open>occluded\<close> action for a label, the store entry of that label is
  the object with the occluded status (the string \<open>occluded/missing\<close>) and a timestamp,
  and it has no \<open>coordinates\<close> field; for the entries the two landmark actions write,
  \<open>coordinates\<close> is present exactly when the status is \<open>ok\<close>.
\<close>

theorem markOccluded_entry:
  "obj_get (annotations (markOccluded name Success now st)) name
     = Some (no_fields\<lparr> a_status := Some ''occluded/missing'', a_timestamp := Some now \<rparr>)
   \<and> a_coordinates (the (obj_get (annotations (markOccluded name Success now st)) name)) = None
   \<and> a_status (the (obj_get (annotations (markOccluded name Success now st)) name)) \<noteq> Some ''ok''
   \<and> a_status (the (obj_get (annotations (annotateLandmark c Success now st))
                        (key_of (selectedLabel st)))) = Some ''ok''
   \<and> a_coordinates (the (obj_get (annotations (annotateLandmark c Success now st))
                             (key_of (selectedLabel st)))) = Some c"
  by (simp add: markOccluded_def annotateLandmark_def Let_def saveToHistory_keeps
        showMessage_keeps fetch_keeps obj_get_obj_set no_fields_def)

section \<open>Polygon completion\<close>

lemma setPolygonTool_keeps:
  "annotations (setPolygonTool tool st) = annotations st"
  "messages (setPolygonTool tool st) = messages st"
  "requests (setPolygonTool tool st) = requests st"
  by (simp_all add: setPolygonTool_def)

lemma handlePolygonClick_draw:
  "polygonTool st = ''draw'' \<Longrightarrow>
   handlePolygonClick c st = st\<lparr> activePolygonPoints := activePolygonPoints st @ [c] \<rparr>"
  by (simp add: handlePolygonClick_def)

text \<open>
  C5. Completing a polygon with fewer than three transient points only shows the warning:
  the store is not changed and no request is sent. After three clicks in draw mode on an
  empty transient list, a completion that the server accepts sends one \<open>polygon\<close> request
  and stores, under the selected label, a polygon whose points are the three clicked
  points in click order.
\<close>

theorem completePolygon_minimum:
  "(length (activePolygonPoints st) < 3 \<longrightarrow>
      messages (completePolygon resp now st)
        = messages st @ [(''Need at least 3 points'', ''warning'')]
      \<and> annotations (completePolygon resp now st) = annotations st
      \<and> requests (completePolygon resp now st) = requests st)
   \<and> (polygonTool st = ''draw'' \<and> activePolygonPoints st = [] \<longrightarrow>
      annotations (completePolygon resp now (handlePolygonClick c2 (handlePolygonClick c1 st)))
        = annotations st
      \<and> requests (completePolygon resp now (handlePolygonClick c2 (handlePolygonClick c1 st)))
        = requests st
      \<and> obj_get (annotations (completePolygon Success now
            (handlePolygonClick c3 (handlePolygonClick c2 (handlePolygonClick c1 st)))))
          (key_of (selectedLabel st))
        = Some (no_fields\<lparr> a_type := Some ''polygon'', a_status := Some ''ok'',
                  a_points := Some [c1, c2, c3], a_timestamp := Some now \<rparr>)
      \<and> requests (completePolygon Success now
            (handlePolygonClick c3 (handlePolygonClick c2 (handlePolygonClick c1 st))))
        = requests st @ [\<lparr> endpoint = ''segments'', label = key_of (selectedLabel st),
                            action = ''polygon'',
                            body = no_fields\<lparr> a_points := Some [c1, c2, c3] \<rparr> \<rparr>])"
proof (intro conjI impI)
  assume "length (activePolygonPoints st) < 3"
  then show "messages (completePolygon resp now st)
        = messages st @ [(''Need at least 3 points'', ''warning'')]"
    and "annotations (completePolygon resp now st) = annotations st"
    and "requests (completePolygon resp now st) = requests st"
    by (simp_all add: completePolygon_def showMessage_keeps)
next
  assume d: "polygonTool st = ''draw'' \<and> activePolygonPoints st = []"
  then have two: "handlePolygonClick c2 (handlePolygonClick c1 st)
      = st\<lparr> activePolygonPoints := [c1, c2] \<rparr>"
    and three: "handlePolygonClick c3 (handlePolygonClick c2 (handlePolygonClick c1 st))
      = st\<lparr> activePolygonPoints := [c1, c2, c3] \<rparr>"
    by (simp_all add: handlePolygonClick_def)
  show "annotations (completePolygon resp now (handlePolygonClick c2 (handlePolygonClick c1 st)))
        = annotations st"
    and "requests (completePolygon resp now (handlePolygonClick c2 (handlePolygonClick c1 st)))
        = requests st"
    unfolding two by (simp_all add: completePolygon_def showMessage_keeps)
  show "obj_get (annotations (completePolygon Success now
            (handlePolygonClick c3 (handlePolygonClick c2 (handlePolygonClick c1 st)))))
          (key_of (selectedLabel st))
        = Some (no_fields\<lparr> a_type := Some ''polygon'', a_status := Some ''ok'',
                  a_points := Some [c1, c2, c3], a_timestamp := Some now \<rparr>)"
    unfolding three
    by (simp add: completePolygon_def Let_def setPolygonTool_keeps showMessage_keeps
          saveToHistory_keeps fetch_keeps obj_get_obj_set)
       (simp add: fetch_def)
  show "requests (completePolygon Success now
            (handlePolygonClick c3 (handlePolygonClick c2 (handlePolygonClick c1 st))))
        = requests st @ [\<lparr> endpoint = ''segments'', label = key_of (selectedLabel st),
                            action = ''polygon'',
                            body = no_fields\<lparr> a_points := Some [c1, c2, c3] \<rparr> \<rparr>]"
    unfolding three
    by (simp add: completePolygon_def Let_def setPolygonTool_keeps showMessage_keeps
          saveToHistory_keeps fetch_keeps)
qed

theorem completePolygon_minimum_witness:
  "length (activePolygonPoints (sample_tool_state ''polygon'' ''L1'' ''circle'')) < 3
   \<and> annotations (completePolygon Success ''t'' (sample_tool_state ''polygon'' ''L1'' ''circle'')) = []
   \<and> requests (completePolygon Success ''t'' (sample_tool_state ''polygon'' ''L1'' ''circle'')) = []
   \<and> polygonTool (sample_tool_state ''polygon'' ''L1'' ''circle'') = ''draw''
   \<and> activePolygonPoints (sample_tool_state ''polygon'' ''L1'' ''circle'') = []
   \<and> obj_get (annotations (completePolygon Success ''t''
         (handlePolygonClick (50, 50) (handlePolygonClick (50, 10) (handlePolygonClick (10, 10)
            (sample_tool_state ''polygon'' ''L1'' ''circle'')))))) ''L1''
       = Some (no_fields\<lparr> a_type := Some ''polygon'', a_status := Some ''ok'',
                 a_points := Some [(10, 10), (50, 10), (50, 50)], a_timestamp := Some ''t'' \<rparr>)
   \<and> annotations (completePolygon Success ''t''
         (handlePolygonClick (50, 10) (handlePolygonClick (10, 10)
            (sample_tool_state ''polygon'' ''L1'' ''circle'')))) = []"
proof -
  let ?s = "sample_tool_state ''polygon'' ''L1'' ''circle''"
  have h1: "length (activePolygonPoints ?s) < 3"
    by (simp add: sample_tool_state_def initial_STATE_def)
  have h2: "polygonTool ?s = ''draw'' \<and> activePolygonPoints ?s = []"
    by (simp add: sample_tool_state_def initial_STATE_def)
  have a: "annotations ?s = []" "requests ?s = []" "key_of (selectedLabel ?s) = ''L1''"
    by (simp_all add: sample_tool_state_def initial_STATE_def key_of_def)
  note T = completePolygon_minimum [of ?s Success "''t''" "(50, 10)" "(10, 10)" "(50, 50)"]
  from T h1 have c1: "annotations (completePolygon Success ''t'' ?s) = annotations ?s
      \<and> requests (completePolygon Success ''t'' ?s) = requests ?s" by blast
  from T h2 have c2: "annotations (completePolygon Success ''t''
         (handlePolygonClick (50, 10) (handlePolygonClick (10, 10) ?s))) = annotations ?s
      \<and> obj_get (annotations (completePolygon Success ''t''
            (handlePolygonClick (50, 50) (handlePolygonClick (50, 10)
               (handlePolygonClick (10, 10) ?s))))) (key_of (selectedLabel ?s))
        = Some (no_fields\<lparr> a_type := Some ''polygon'', a_status := Some ''ok'',
                  a_points := Some [(10, 10), (50, 10), (50, 50)], a_timestamp := Some ''t'' \<rparr>)"
    by blast
  show ?thesis using h1 h2 c1 c2 unfolding a by blast
qed

section \<open>Minimum size of a drawn circle or rectangle\<close>

lemma Math_round_ge_10: "10 \<le> Math_round v \<longleftrightarrow> 19 / 2 \<le> v"
proof -
  have "10 \<le> Math_round v \<longleftrightarrow> (10::int) \<le> \<lfloor>v + 1 / 2\<rfloor>"
    unfolding Math_round_def by linarith
  also have "\<dots> \<longleftrightarrow> of_int 10 \<le> v + 1 / 2" by (rule le_floor_iff)
  also have "\<dots> \<longleftrightarrow> 19 / 2 \<le> v" by auto
  finally show ?thesis .
qed

lemma Math_round_near: "\<bar>Math_round v - v\<bar> \<le> 1 / 2"
  unfolding Math_round_def by linarith

lemma sqrt_24_5: "sqrt (576 / 25) = 24 / 5"
  by (rule real_sqrt_unique) (simp_all add: power2_eq_square)

lemma sqrt_100: "sqrt 100 = 10"
  by (rule real_sqrt_unique) (simp_all add: power2_eq_square)

lemma Math_round_48_5: "Math_round (48 / 5) = 10"
  by (simp add: Math_round_def)

lemma Math_round_20: "Math_round 20 = 20"
  by (simp add: Math_round_def)

lemma completeFigureDrawing_accepts:
  assumes "figureDrawing st" and "19 / 2 \<le> drawn_size st c"
  shows "requests (completeFigureDrawing c resp now st)
           = requests st @ [\<lparr> endpoint = ''figures'', label = key_of (selectedLabel st),
               action = ''figure'',
               body = no_fields\<lparr> a_x := Some (figureStartX st), a_y := Some (figureStartY st),
                        a_shape := Some (figureShape st),
                        a_size := Some (Math_round (drawn_size st c)) \<rparr> \<rparr>]"
    and "obj_get (annotations (completeFigureDrawing c Success now st)) (key_of (selectedLabel st))
           = Some (no_fields\<lparr> a_type := Some ''figure'', a_status := Some ''ok'',
                     a_x := Some (figureStartX st), a_y := Some (figureStartY st),
                     a_shape := Some (figureShape st),
                     a_size := Some (Math_round (drawn_size st c)),
                     a_timestamp := Some now \<rparr>)"
    and "resp \<noteq> Success \<Longrightarrow> annotations (completeFigureDrawing c resp now st) = annotations st"
proof -
  have big: "\<not> Math_round (drawn_size st c) < 10"
    using assms(2) Math_round_ge_10 [of "drawn_size st c"] by simp
  show "requests (completeFigureDrawing c resp now st)
           = requests st @ [\<lparr> endpoint = ''figures'', label = key_of (selectedLabel st),
               action = ''figure'',
               body = no_fields\<lparr> a_x := Some (figureStartX st), a_y := Some (figureStartY st),
                        a_shape := Some (figureShape st),
                        a_size := Some (Math_round (drawn_size st c)) \<rparr> \<rparr>]"
    using assms(1) big
    by (cases resp)
       (simp_all add: completeFigureDrawing_def drawn_size_def [symmetric] Let_def fetch_keeps
          saveToHistory_keeps showMessage_keeps)
  show "obj_get (annotations (completeFigureDrawing c Success now st)) (key_of (selectedLabel st))
           = Some (no_fields\<lparr> a_type := Some ''figure'', a_status := Some ''ok'',
                     a_x := Some (figureStartX st), a_y := Some (figureStartY st),
                     a_shape := Some (figureShape st),
                     a_size := Some (Math_round (drawn_size st c)),
                     a_timestamp := Some now \<rparr>)"
    using assms(1) big
    by (simp add: completeFigureDrawing_def drawn_size_def [symmetric] Let_def fetch_keeps
          saveToHistory_keeps showMessage_keeps obj_get_obj_set)
       (simp add: fetch_def)
  show "resp \<noteq> Success \<Longrightarrow> annotations (completeFigureDrawing c resp now st) = annotations st"
    using assms(1) big
    by (cases resp)
       (simp_all add: completeFigureDrawing_def drawn_size_def [symmetric] Let_def fetch_keeps
          saveToHistory_keeps showMessage_keeps)
qed

lemma completeFigureDrawing_aborts:
  assumes "figureDrawing st" and "drawn_size st c < 19 / 2"
  shows "requests (completeFigureDrawing c resp now st) = requests st"
    and "annotations (completeFigureDrawing c resp now st) = annotations st"
    and "messages (completeFigureDrawing c resp now st)
           = messages st @ [(''Figure too small, draw larger'', ''warning'')]"
proof -
  have small: "Math_round (drawn_size st c) < 10"
    using assms(2) Math_round_ge_10 [of "drawn_size st c"] by simp
  show "requests (completeFigureDrawing c resp now st) = requests st"
    and "annotations (completeFigureDrawing c resp now st) = annotations st"
    and "messages (completeFigureDrawing c resp now st)
           = messages st @ [(''Figure too small, draw larger'', ''warning'')]"
    using assms(1) small
    by (simp_all add: completeFigureDrawing_def drawn_size_def [symmetric] Let_def
          showMessage_keeps)
qed

text \<open>
  C7 as stated fails: with the centre at (20, 20) and the pointer released at (20, 24.8)
  twice the distance is 9.6, below 10, and yet the request is sent and, on success, the
  circle is stored (with size 10).
\<close>

theorem completeFigureDrawing_below_10:
  "drawn_size (startFigureDrawing (20, 20) Success ''t0''
       (sample_tool_state ''figure'' ''F1'' ''circle''))
     (20, 124 / 5) = 48 / 5
   \<and> requests (completeFigureDrawing (20, 124 / 5) Success ''t1''
        (startFigureDrawing (20, 20) Success ''t0''
          (sample_tool_state ''figure'' ''F1'' ''circle'')))
       = [\<lparr> endpoint = ''figures'', label = ''F1'', action = ''figure'',
            body = no_fields\<lparr> a_x := Some 20, a_y := Some 20, a_shape := Some ''circle'',
                     a_size := Some 10 \<rparr> \<rparr>]
   \<and> obj_get (annotations (completeFigureDrawing (20, 124 / 5) Success ''t1''
        (startFigureDrawing (20, 20) Success ''t0''
          (sample_tool_state ''figure'' ''F1'' ''circle'')))) ''F1''
       = Some (no_fields\<lparr> a_type := Some ''figure'', a_status := Some ''ok'',
                 a_x := Some 20, a_y := Some 20, a_shape := Some ''circle'',
                 a_size := Some 10, a_timestamp := Some ''t1'' \<rparr>)"
proof -
  let ?s = "startFigureDrawing (20, 20) Success ''t0''
       (sample_tool_state ''figure'' ''F1'' ''circle'')"
  have f: "figureDrawing ?s" "figureShape ?s = ''circle''" "key_of (selectedLabel ?s) = ''F1''"
    "requests ?s = []" "figureStartX ?s = 20" "figureStartY ?s = 20"
    by (simp_all add: startFigureDrawing_def sample_tool_state_def initial_STATE_def key_of_def)
  have d: "drawn_size ?s (20, 124 / 5) = 48 / 5"
    unfolding drawn_size_def f by (simp add: sqrt_24_5)
  have ge: "19 / 2 \<le> drawn_size ?s (20, 124 / 5)" unfolding d by simp
  note A = completeFigureDrawing_accepts [OF f(1) ge, unfolded d Math_round_48_5 f]
  show ?thesis using d A(1) [of Success "''t1''"] A(2) [of "''t1''"] by simp
qed

text \<open>
  C7, amended. Pointer-up of a circle or rectangle gesture compares the rounded size
  \<open>Math.round(2 * distance)\<close> with 10, so it finalizes exactly when twice the distance is
  at least 9.5: then one \<open>figure\<close> request with the rounded size is sent, the figure is
  stored on success and the store is unchanged otherwise. Below 9.5 the gesture ends with
  the "too small" warning, no request and an unchanged store.
\<close>

theorem completeFigureDrawing_threshold:
  "figureDrawing st \<longrightarrow>
     (10 \<le> Math_round (drawn_size st c) \<longleftrightarrow> 19 / 2 \<le> drawn_size st c)
     \<and> (19 / 2 \<le> drawn_size st c \<longrightarrow>
          requests (completeFigureDrawing c resp now st)
            = requests st @ [\<lparr> endpoint = ''figures'', label = key_of (selectedLabel st),
                action = ''figure'',
                body = no_fields\<lparr> a_x := Some (figureStartX st), a_y := Some (figureStartY st),
                         a_shape := Some (figureShape st),
                         a_size := Some (Math_round (drawn_size st c)) \<rparr> \<rparr>]
          \<and> obj_get (annotations (completeFigureDrawing c Success now st))
                (key_of (selectedLabel st))
            = Some (no_fields\<lparr> a_type := Some ''figure'', a_status := Some ''ok'',
                      a_x := Some (figureStartX st), a_y := Some (figureStartY st),
                      a_shape := Some (figureShape st),
                      a_size := Some (Math_round (drawn_size st c)),
                      a_timestamp := Some now \<rparr>)
          \<and> (resp \<noteq> Success \<longrightarrow>
                annotations (completeFigureDrawing c resp now st) = annotations st))
     \<and> (drawn_size st c < 19 / 2 \<longrightarrow>
          requests (completeFigureDrawing c resp now st) = requests st
          \<and> annotations (completeFigureDrawing c resp now st) = annotations st
          \<and> messages (completeFigureDrawing c resp now st)
              = messages st @ [(''Figure too small, draw larger'', ''warning'')])"
  using completeFigureDrawing_accepts [of st c] completeFigureDrawing_aborts [of st c]
    Math_round_ge_10 [of "drawn_size st c"]
  by blast

theorem completeFigureDrawing_threshold_witness:
  "figureDrawing (startFigureDrawing (20, 20) Success ''t0''
       (sample_tool_state ''figure'' ''F1'' ''circle''))
   \<and> 19 / 2 \<le> drawn_size (startFigureDrawing (20, 20) Success ''t0''
       (sample_tool_state ''figure'' ''F1'' ''circle'')) (20, 30)
   \<and> obj_get (annotations (completeFigureDrawing (20, 30) Success ''t1''
        (startFigureDrawing (20, 20) Success ''t0''
          (sample_tool_state ''figure'' ''F1'' ''circle'')))) ''F1''
       = Some (no_fields\<lparr> a_type := Some ''figure'', a_status := Some ''ok'',
                 a_x := Some 20, a_y := Some 20, a_shape := Some ''circle'',
                 a_size := Some 20, a_timestamp := Some ''t1'' \<rparr>)
   \<and> annotations (completeFigureDrawing (20, 30) Rejected ''t1''
        (startFigureDrawing (20, 20) Success ''t0''
          (sample_tool_state ''figure'' ''F1'' ''circle''))) = []
   \<and> drawn_size (startFigureDrawing (20, 20) Success ''t0''
       (sample_tool_state ''figure'' ''F1'' ''circle'')) (20, 22)
       < 19 / 2
   \<and> requests (completeFigureDrawing (20, 22) Success ''t1''
        (startFigureDrawing (20, 20) Success ''t0''
          (sample_tool_state ''figure'' ''F1'' ''circle''))) = []
   \<and> annotations (completeFigureDrawing (20, 22) Success ''t1''
        (startFigureDrawing (20, 20) Success ''t0''
          (sample_tool_state ''figure'' ''F1'' ''circle''))) = []"
proof -
  let ?s = "startFigureDrawing (20, 20) Success ''t0''
       (sample_tool_state ''figure'' ''F1'' ''circle'')"
  have f: "figureDrawing ?s" "figureShape ?s = ''circle''" "key_of (selectedLabel ?s) = ''F1''"
    "requests ?s = []" "figureStartX ?s = 20" "figureStartY ?s = 20" "annotations ?s = []"
    by (simp_all add: startFigureDrawing_def sample_tool_state_def initial_STATE_def key_of_def)
  have d1: "drawn_size ?s (20, 30) = 20"
    unfolding drawn_size_def f by (simp add: sqrt_100)
  have "sqrt 4 = 2" by (rule real_sqrt_unique) (simp_all add: power2_eq_square)
  then have d2: "drawn_size ?s (20, 22) = 4"
    unfolding drawn_size_def f by simp
  have ge: "19 / 2 \<le> drawn_size ?s (20, 30)" and lt: "drawn_size ?s (20, 22) < 19 / 2"
    unfolding d1 d2 by simp_all
  from completeFigureDrawing_threshold [of ?s "(20, 30)" Success "''t1''"] f(1) ge
  have a1: "obj_get (annotations (completeFigureDrawing (20, 30) Success ''t1'' ?s))
                (key_of (selectedLabel ?s))
            = Some (no_fields\<lparr> a_type := Some ''figure'', a_status := Some ''ok'',
                      a_x := Some (figureStartX ?s), a_y := Some (figureStartY ?s),
                      a_shape := Some (figureShape ?s),
                      a_size := Some (Math_round (drawn_size ?s (20, 30))),
                      a_timestamp := Some ''t1'' \<rparr>)"
    by blast
  from completeFigureDrawing_threshold [of ?s "(20, 30)" Rejected "''t1''"] f(1) ge
  have a2: "annotations (completeFigureDrawing (20, 30) Rejected ''t1'' ?s) = annotations ?s"
    by blast
  from completeFigureDrawing_threshold [of ?s "(20, 22)" Success "''t1''"] f(1) lt
  have a3: "requests (completeFigureDrawing (20, 22) Success ''t1'' ?s) = requests ?s
          \<and> annotations (completeFigureDrawing (20, 22) Success ''t1'' ?s) = annotations ?s"
    by blast
  show ?thesis
    using f(1) ge lt a1 a2 a3 unfolding d1 Math_round_20 f(2-7) by blast
qed

section \<open>The line invariant\<close>

lemma startFigureDrawing_two_clicks:
  assumes "figureShape st = ''line''" and "linePoints st = []"
  shows "startFigureDrawing q resp now (startFigureDrawing p resp0 now0 st)
           = completeLineDrawing resp now (st\<lparr> figurePreview := True, linePoints := [p, q] \<rparr>)"
  using assms by (simp add: startFigureDrawing_def)

lemma completeLineDrawing_entry:
  assumes "linePoints st = [p, q]" and "10 \<le> point_distance p q"
  shows "obj_get (annotations (completeLineDrawing Success now st)) (key_of (selectedLabel st))
           = Some (no_fields\<lparr> a_x := Some ((fst p + fst q) / 2), a_y := Some ((snd p + snd q) / 2),
                     a_shape := Some ''line'', a_size := Some (Math_round (point_distance p q)),
                     a_startX := Some (fst p), a_startY := Some (snd p),
                     a_endX := Some (fst q), a_endY := Some (snd q),
                     a_type := Some ''figure'', a_status := Some ''ok'',
                     a_timestamp := Some now \<rparr>)"
  using assms
  by (simp add: completeLineDrawing_def point_distance_def [symmetric] Let_def fetch_keeps
        saveToHistory_keeps showMessage_keeps obj_get_obj_set)

lemma created_line_invariant:
  "line_centred (no_fields\<lparr> a_x := Some ((fst p + fst q) / 2), a_y := Some ((snd p + snd q) / 2),
                     a_shape := Some ''line'', a_size := Some (Math_round (point_distance p q)),
                     a_startX := Some (fst p), a_startY := Some (snd p),
                     a_endX := Some (fst q), a_endY := Some (snd q),
                     a_type := Some ''figure'', a_status := Some ''ok'',
                     a_timestamp := Some now \<rparr>)"
  "line_sized (1 / 2) (no_fields\<lparr> a_x := Some ((fst p + fst q) / 2), a_y := Some ((snd p + snd q) / 2),
                     a_shape := Some ''line'', a_size := Some (Math_round (point_distance p q)),
                     a_startX := Some (fst p), a_startY := Some (snd p),
                     a_endX := Some (fst q), a_endY := Some (snd q),
                     a_type := Some ''figure'', a_status := Some ''ok'',
                     a_timestamp := Some now \<rparr>)"
  using Math_round_near [of "point_distance p q"]
  by (simp_all add: line_centred_def line_sized_def line_length_def num2_def no_fields_def
        point_distance_def)

lemma linePointDragging_entry:
  assumes "linePointDragging st" and "linePointDraggedFigure st = Some f" and "f \<noteq> []"
    and "obj_get (annotations st) f = Some fd"
    and "a_startX fd = Some sx" and "a_startY fd = Some sy"
    and "a_endX fd = Some ex" and "a_endY fd = Some ey"
  shows "\<exists>st' a. handleMouseMove_linePointDragging c st = Inr st'
           \<and> obj_get (annotations st') f = Some a
           \<and> line_centred a \<and> line_sized 0 a
           \<and> (linePointDraggedType st = Some ''start'' \<longrightarrow>
                a_startX a = Some (fst c) \<and> a_startY a = Some (snd c)
                \<and> a_endX a = Some ex \<and> a_endY a = Some ey)
           \<and> (linePointDraggedType st = Some ''end'' \<longrightarrow>
                a_startX a = Some sx \<and> a_startY a = Some sy
                \<and> a_endX a = Some (fst c) \<and> a_endY a = Some (snd c))"
  using assms
  by (simp add: handleMouseMove_linePointDragging_def truthy_def key_of_def Let_def
        obj_get_obj_set line_centred_def line_sized_def line_length_def num2_def)

text \<open>
  A pointer-down on the element of a line runs both listeners of that element, in the
  order of their registration: \<open>handleFigureMouseDown\<close>, then \<open>handleLineMouseDown\<close>.
\<close>

lemma line_mouse_down:
  assumes "\<not> isAnnotationMode st" and "imageLoaded st" and "\<not> polygonDragging st"
    and "\<not> figureResizing st" and "\<not> linePointDragging st" and "f \<noteq> []"
    and "obj_get (annotations st) f = Some fd" and "a_shape fd = Some ''line''"
  shows "\<exists>s1 s2. handleFigureMouseDown (Other (Some f)) mx my ox oy st = Inr s1
           \<and> handleLineMouseDown True f mx my ox oy s1 = Inr s2
           \<and> annotations s2 = annotations st \<and> line_drag f fd s2"
  using assms
  by (simp add: handleFigureMouseDown_def handleLineMouseDown_def line_drag_def)

lemma line_drag_step:
  assumes "line_drag f fd st"
    and "a_startX fd = Some sx" and "a_startY fd = Some sy"
    and "a_endX fd = Some ex" and "a_endY fd = Some ey"
    and "a_x fd = Some x" and "a_y fd = Some y"
  shows "\<exists>st' a. handleMouseMove mx' my' st = Inr st'
           \<and> obj_get (annotations st') f = Some a
           \<and> a_size a = a_size fd \<and> line_length a = line_length fd
           \<and> (line_centred fd \<longrightarrow> line_centred a)
           \<and> line_drag f fd st'"
proof -
  from assms(1) obtain cur where c: "obj_get (annotations st) f = Some cur"
    "a_shape cur = Some ''line''" "a_size cur = a_size fd"
    by (auto simp: line_drag_def split: option.splits)
  from assms(1) have d: "imageLoaded st" "figureDragging st" "selectedFigure st = Some f"
    "f \<noteq> []" "\<not> polygonDragging st" "\<not> figureResizing st" "\<not> linePointDragging st"
    "figureOriginalX st = Some x" "figureOriginalY st = Some y"
    "figureOriginalStartX st = Some sx" "figureOriginalStartY st = Some sy"
    "figureOriginalEndX st = Some ex" "figureOriginalEndY st = Some ey"
    using assms(2-7) by (simp_all add: line_drag_def)
  define st1 where "st1 = handleMouseMove_pan mx' my' st"
  have p: "annotations st1 = annotations st" "figureDragging st1" "selectedFigure st1 = Some f"
    "imageLoaded st1" "\<not> polygonDragging st1" "\<not> figureResizing st1"
    "\<not> linePointDragging st1"
    "figureOriginalX st1 = Some x" "figureOriginalY st1 = Some y"
    "figureOriginalStartX st1 = Some sx" "figureOriginalStartY st1 = Some sy"
    "figureOriginalEndX st1 = Some ex" "figureOriginalEndY st1 = Some ey"
    using d by (simp_all add: st1_def handleMouseMove_pan_def Let_def)
  define n where
    "n = displayToImageCoords st1 (mx' + figureDragOffsetX st1) (my' + figureDragOffsetY st1)"
  define a where "a = cur\<lparr> a_startX := Some (sx + (fst n - x)), a_startY := Some (sy + (snd n - y)),
      a_endX := Some (ex + (fst n - x)), a_endY := Some (ey + (snd n - y)),
      a_x := Some (fst n), a_y := Some (snd n) \<rparr>"
  define st2 where "st2 = st1\<lparr> annotations := obj_set f a (annotations st1) \<rparr>"
  have tr: "truthy (Some f)" "key_of (Some f) = f"
    using d(4) by (simp_all add: truthy_def key_of_def)
  have blk: "handleMouseMove_figureDragging mx' my' st1 = Inr st2"
    using p c tr
    by (simp add: handleMouseMove_figureDragging_def Let_def num2_def n_def [symmetric]
          a_def st2_def)
  have rest: "handleMouseMove_linePointDragging (eventToImageCoords st mx' my')
      (handleMouseMove_figureResizing mx' my' st2) = Inr st2"
    using p(6,7)
    by (simp add: handleMouseMove_figureResizing_def handleMouseMove_linePointDragging_def
          st2_def)
  have h: "handleMouseMove mx' my' st = Inr st2"
    using d(1) p(5) by (simp add: handleMouseMove_def Let_def st1_def [symmetric] blk rest)
  have e: "obj_get (annotations st2) f = Some a"
    by (simp add: st2_def obj_get_obj_set)
  have q: "a_size a = a_size fd" "line_length a = line_length fd"
    "line_centred fd \<longrightarrow> line_centred a"
    using c(3) assms(2-7)
    by (auto simp: a_def line_length_def line_centred_def num2_def)
  have l: "line_drag f fd st2"
    using p d(4) c(2,3) assms(2-7)
    by (simp add: line_drag_def st2_def obj_get_obj_set a_def)
  show ?thesis using h e q l by blast
qed

lemma sqrt_2704_25: "sqrt (2704 / 25) = 52 / 5"
  by (rule real_sqrt_unique) (simp_all add: power2_eq_square)

lemma sqrt_400: "sqrt 400 = 20"
  by (rule real_sqrt_unique) (simp_all add: power2_eq_square)

text \<open>
  C4 as stated fails at creation: a line clicked from (20, 20) to (20, 30.4) is stored
  with size 10, while its endpoints are 10.4 apart.
\<close>

theorem completeLineDrawing_size_rounded:
  "obj_get (annotations (startFigureDrawing (20, 152 / 5) Success ''t1''
       (startFigureDrawing (20, 20) Success ''t0''
          (sample_tool_state ''figure'' ''L1'' ''line'')))) ''L1''
     = Some (no_fields\<lparr> a_x := Some 20, a_y := Some (126 / 5),
               a_shape := Some ''line'', a_size := Some 10,
               a_startX := Some 20, a_startY := Some 20,
               a_endX := Some 20, a_endY := Some (152 / 5),
               a_type := Some ''figure'', a_status := Some ''ok'',
               a_timestamp := Some ''t1'' \<rparr>)
   \<and> line_length (no_fields\<lparr> a_x := Some 20, a_y := Some (126 / 5),
               a_shape := Some ''line'', a_size := Some 10,
               a_startX := Some 20, a_startY := Some 20,
               a_endX := Some 20, a_endY := Some (152 / 5),
               a_type := Some ''figure'', a_status := Some ''ok'',
               a_timestamp := Some ''t1'' \<rparr>) = Some (52 / 5)"
proof -
  let ?s = "sample_tool_state ''figure'' ''L1'' ''line''"
  let ?s2 = "?s\<lparr> figurePreview := True, linePoints := [(20, 20), (20, 152 / 5)] \<rparr>"
  have f: "figureShape ?s = ''line''" "linePoints ?s = []"
    by (simp_all add: sample_tool_state_def initial_STATE_def)
  have d: "point_distance (20, 20) (20, 152 / 5) = 52 / 5"
    by (simp add: point_distance_def sqrt_2704_25)
  have r: "Math_round (52 / 5) = 10" by (simp add: Math_round_def)
  have lp: "linePoints ?s2 = [(20, 20), (20, 152 / 5)]" by simp
  have ge: "10 \<le> point_distance (20, 20) (20, 152 / 5)" unfolding d by simp
  have k: "key_of (selectedLabel ?s2) = ''L1''"
    by (simp add: key_of_def sample_tool_state_def)
  have e: "obj_get (annotations (startFigureDrawing (20, 152 / 5) Success ''t1''
       (startFigureDrawing (20, 20) Success ''t0'' ?s))) ''L1''
     = Some (no_fields\<lparr> a_x := Some 20, a_y := Some (126 / 5),
               a_shape := Some ''line'', a_size := Some 10,
               a_startX := Some 20, a_startY := Some 20,
               a_endX := Some 20, a_endY := Some (152 / 5),
               a_type := Some ''figure'', a_status := Some ''ok'',
               a_timestamp := Some ''t1'' \<rparr>)"
    unfolding startFigureDrawing_two_clicks [OF f]
    using completeLineDrawing_entry [OF lp ge, of "''t1''"]
    unfolding d r k by simp
  have l: "line_length (no_fields\<lparr> a_x := Some 20, a_y := Some (126 / 5),
               a_shape := Some ''line'', a_size := Some 10,
               a_startX := Some 20, a_startY := Some 20,
               a_endX := Some 20, a_endY := Some (152 / 5),
               a_type := Some ''figure'', a_status := Some ''ok'',
               a_timestamp := Some ''t1'' \<rparr>) = Some (52 / 5)"
    by (simp add: line_length_def num2_def no_fields_def sqrt_2704_25)
  show ?thesis using e l by blast
qed

text \<open>
  C4, amended. After a successful line creation the stored centre is the midpoint of the
  two clicked endpoints and the stored size is their Euclidean distance rounded to the
  nearest integer (so within 1/2 of it). After an endpoint drag the centre is the midpoint
  and the size is the distance, exactly. A drag of the whole line that starts with a
  pointer-down on the element of an interactive line, so that both of its pointer-down
  handlers run, while no polygon drag, resize or endpoint drag is under way, leaves the
  store as it is at pointer-down, and after every pointer-move of the drag the size and
  the endpoint distance are what they were at pointer-down and the centre is the midpoint
  if it was.
\<close>

theorem line_invariant_kept:
  "(figureShape st = ''line'' \<and> linePoints st = [] \<and> 10 \<le> point_distance p q \<longrightarrow>
      (\<exists>a. obj_get (annotations (startFigureDrawing q Success now
                 (startFigureDrawing p resp0 now0 st))) (key_of (selectedLabel st)) = Some a
         \<and> a_startX a = Some (fst p) \<and> a_startY a = Some (snd p)
         \<and> a_endX a = Some (fst q) \<and> a_endY a = Some (snd q)
         \<and> a_size a = Some (Math_round (point_distance p q))
         \<and> line_centred a \<and> line_sized (1 / 2) a))
   \<and> (linePointDragging st \<and> linePointDraggedFigure st = Some f \<and> f \<noteq> []
        \<and> obj_get (annotations st) f = Some fd
        \<and> a_startX fd \<noteq> None \<and> a_startY fd \<noteq> None
        \<and> a_endX fd \<noteq> None \<and> a_endY fd \<noteq> None \<longrightarrow>
      (\<exists>st' a. handleMouseMove_linePointDragging c st = Inr st'
         \<and> obj_get (annotations st') f = Some a
         \<and> line_centred a \<and> line_sized 0 a
         \<and> (linePointDraggedType st = Some ''start'' \<longrightarrow>
              a_startX a = Some (fst c) \<and> a_startY a = Some (snd c)
              \<and> a_endX a = a_endX fd \<and> a_endY a = a_endY fd)
         \<and> (linePointDraggedType st = Some ''end'' \<longrightarrow>
              a_startX a = a_startX fd \<and> a_startY a = a_startY fd
              \<and> a_endX a = Some (fst c) \<and> a_endY a = Some (snd c))))
   \<and> (\<not> isAnnotationMode st \<and> imageLoaded st \<and> \<not> polygonDragging st
        \<and> \<not> figureResizing st \<and> \<not> linePointDragging st
        \<and> f \<noteq> [] \<and> obj_get (annotations st) f = Some fd
        \<and> a_shape fd = Some ''line'' \<longrightarrow>
      (\<exists>s1 s2. handleFigureMouseDown (Other (Some f)) mx my ox oy st = Inr s1
         \<and> handleLineMouseDown True f mx my ox oy s1 = Inr s2
         \<and> annotations s2 = annotations st \<and> line_drag f fd s2))
   \<and> (line_drag f fd st
        \<and> a_startX fd \<noteq> None \<and> a_startY fd \<noteq> None
        \<and> a_endX fd \<noteq> None \<and> a_endY fd \<noteq> None
        \<and> a_x fd \<noteq> None \<and> a_y fd \<noteq> None \<longrightarrow>
      (\<exists>st' a. handleMouseMove mx' my' st = Inr st'
         \<and> obj_get (annotations st') f = Some a
         \<and> a_size a = a_size fd \<and> line_length a = line_length fd
         \<and> (line_centred fd \<longrightarrow> line_centred a)
         \<and> line_drag f fd st'))"
proof (intro conjI impI)
  assume h: "figureShape st = ''line'' \<and> linePoints st = [] \<and> 10 \<le> point_distance p q"
  let ?s2 = "st\<lparr> figurePreview := True, linePoints := [p, q] \<rparr>"
  have lp: "linePoints ?s2 = [p, q]" by simp
  have "obj_get (annotations (startFigureDrawing q Success now
                 (startFigureDrawing p resp0 now0 st))) (key_of (selectedLabel st))
      = Some (no_fields\<lparr> a_x := Some ((fst p + fst q) / 2), a_y := Some ((snd p + snd q) / 2),
                     a_shape := Some ''line'', a_size := Some (Math_round (point_distance p q)),
                     a_startX := Some (fst p), a_startY := Some (snd p),
                     a_endX := Some (fst q), a_endY := Some (snd q),
                     a_type := Some ''figure'', a_status := Some ''ok'',
                     a_timestamp := Some now \<rparr>)"
    using h startFigureDrawing_two_clicks [where st = st and q = q and resp = Success
        and now = now and p = p and ?resp0.0 = resp0 and ?now0.0 = now0]
      completeLineDrawing_entry [OF lp, of now]
    by simp
  then show "\<exists>a. obj_get (annotations (startFigureDrawing q Success now
                 (startFigureDrawing p resp0 now0 st))) (key_of (selectedLabel st)) = Some a
         \<and> a_startX a = Some (fst p) \<and> a_startY a = Some (snd p)
         \<and> a_endX a = Some (fst q) \<and> a_endY a = Some (snd q)
         \<and> a_size a = Some (Math_round (point_distance p q))
         \<and> line_centred a \<and> line_sized (1 / 2) a"
    using created_line_invariant [where p = p and q = q and now = now] by simp
next
  assume h: "linePointDragging st \<and> linePointDraggedFigure st = Some f \<and> f \<noteq> []
        \<and> obj_get (annotations st) f = Some fd
        \<and> a_startX fd \<noteq> None \<and> a_startY fd \<noteq> None
        \<and> a_endX fd \<noteq> None \<and> a_endY fd \<noteq> None"
  then obtain sx sy ex ey where e: "a_startX fd = Some sx" "a_startY fd = Some sy"
    "a_endX fd = Some ex" "a_endY fd = Some ey" by auto
  from h linePointDragging_entry [of st f fd sx sy ex ey c] e
  show "\<exists>st' a. handleMouseMove_linePointDragging c st = Inr st'
         \<and> obj_get (annotations st') f = Some a
         \<and> line_centred a \<and> line_sized 0 a
         \<and> (linePointDraggedType st = Some ''start'' \<longrightarrow>
              a_startX a = Some (fst c) \<and> a_startY a = Some (snd c)
              \<and> a_endX a = a_endX fd \<and> a_endY a = a_endY fd)
         \<and> (linePointDraggedType st = Some ''end'' \<longrightarrow>
              a_startX a = a_startX fd \<and> a_startY a = a_startY fd
              \<and> a_endX a = Some (fst c) \<and> a_endY a = Some (snd c))"
    by simp
next
  assume h: "\<not> isAnnotationMode st \<and> imageLoaded st \<and> \<not> polygonDragging st
        \<and> \<not> figureResizing st \<and> \<not> linePointDragging st
        \<and> f \<noteq> [] \<and> obj_get (annotations st) f = Some fd
        \<and> a_shape fd = Some ''line''"
  then show "\<exists>s1 s2. handleFigureMouseDown (Other (Some f)) mx my ox oy st = Inr s1
         \<and> handleLineMouseDown True f mx my ox oy s1 = Inr s2
         \<and> annotations s2 = annotations st \<and> line_drag f fd s2"
    using line_mouse_down [of st f fd mx my ox oy] by simp
next
  assume h: "line_drag f fd st
        \<and> a_startX fd \<noteq> None \<and> a_startY fd \<noteq> None
        \<and> a_endX fd \<noteq> None \<and> a_endY fd \<noteq> None
        \<and> a_x fd \<noteq> None \<and> a_y fd \<noteq> None"
  then obtain sx sy ex ey x y where e: "a_startX fd = Some sx" "a_startY fd = Some sy"
    "a_endX fd = Some ex" "a_endY fd = Some ey" "a_x fd = Some x" "a_y fd = Some y" by auto
  from h have ld: "line_drag f fd st" by simp
  show "\<exists>st' a. handleMouseMove mx' my' st = Inr st'
         \<and> obj_get (annotations st') f = Some a
         \<and> a_size a = a_size fd \<and> line_length a = line_length fd
         \<and> (line_centred fd \<longrightarrow> line_centred a)
         \<and> line_drag f fd st'"
    by (rule line_drag_step [OF ld e])
qed

theorem line_invariant_kept_witness:
  "(figureShape (sample_tool_state ''figure'' ''L1'' ''line'')
      = ''line''
    \<and> linePoints (sample_tool_state ''figure'' ''L1'' ''line'')
      = []
    \<and> 10 \<le> point_distance (20, 20) (20, 40)
    \<and> (\<exists>a. obj_get (annotations (startFigureDrawing (20, 40) Success ''t1''
                 (startFigureDrawing (20, 20) Success ''t0''
                   (sample_tool_state ''figure'' ''L1'' ''line'')))) ''L1'' = Some a
         \<and> a_size a = Some 20 \<and> line_centred a \<and> line_sized (1 / 2) a))
   \<and> (\<exists>st' a. handleMouseMove_linePointDragging (50, 60)
           ((initial_STATE [(''L1'', sample_line)])\<lparr> isAnnotationMode := False,
               linePointDragging := True, linePointDraggedFigure := Some ''L1'',
               linePointDraggedType := Some ''end'' \<rparr>) = Inr st'
         \<and> obj_get (annotations st') ''L1'' = Some a
         \<and> line_centred a \<and> line_sized 0 a
         \<and> a_endX a = Some 50 \<and> a_endY a = Some 60)
   \<and> (line_centred sample_line
       \<and> (\<exists>s1 s2 s3 s4 a b. handleFigureMouseDown (Other (Some ''L1'')) 20 30 0 0
             sample_line_state = Inr s1
         \<and> handleLineMouseDown True ''L1'' 20 30 0 0 s1 = Inr s2
         \<and> handleMouseMove 70 80 s2 = Inr s3
         \<and> obj_get (annotations s3) ''L1'' = Some a
         \<and> a_size a = Some 20 \<and> line_length a = Some 20 \<and> line_centred a
         \<and> handleMouseMove 90 10 s3 = Inr s4
         \<and> obj_get (annotations s4) ''L1'' = Some b
         \<and> a_size b = Some 20 \<and> line_length b = Some 20 \<and> line_centred b))"
proof -
  let ?sa = "sample_tool_state ''figure'' ''L1'' ''line''"
  let ?sb = "(initial_STATE [(''L1'', sample_line)])\<lparr> isAnnotationMode := False,
               linePointDragging := True, linePointDraggedFigure := Some ''L1'',
               linePointDraggedType := Some ''end'' \<rparr>"
  let ?sc = sample_line_state
  have ha: "figureShape ?sa = ''line''" "linePoints ?sa = []"
    "key_of (selectedLabel ?sa) = ''L1''"
    by (simp_all add: sample_tool_state_def initial_STATE_def key_of_def)
  have d: "point_distance (20, 20) (20, 40) = 20"
    by (simp add: point_distance_def sqrt_400)
  have r: "Math_round 20 = 20" by (simp add: Math_round_def)
  from line_invariant_kept [where st = ?sa and p = "(20, 20)" and q = "(20, 40)"
      and now = "''t1''" and ?resp0.0 = Success and ?now0.0 = "''t0''", THEN conjunct1]
    ha d r
  have a: "\<exists>a. obj_get (annotations (startFigureDrawing (20, 40) Success ''t1''
                 (startFigureDrawing (20, 20) Success ''t0'' ?sa))) ''L1'' = Some a
         \<and> a_size a = Some 20 \<and> line_centred a \<and> line_sized (1 / 2) a"
    by auto
  have hb: "linePointDragging ?sb" "linePointDraggedFigure ?sb = Some ''L1''"
    "obj_get (annotations ?sb) ''L1'' = Some sample_line"
    "linePointDraggedType ?sb = Some ''end''"
    by (simp_all add: initial_STATE_def obj_get_def)
  have sl: "a_startX sample_line = Some 20" "a_startY sample_line = Some 20"
    "a_endX sample_line = Some 20" "a_endY sample_line = Some 40"
    "a_x sample_line = Some 20" "a_y sample_line = Some 30"
    "a_shape sample_line = Some ''line''" "a_size sample_line = Some 20"
    by (simp_all add: sample_line_def no_fields_def)
  from line_invariant_kept [where st = ?sb and f = "''L1''" and fd = sample_line
      and c = "(50, 60)", THEN conjunct2, THEN conjunct1] hb sl
  have b: "\<exists>st' a. handleMouseMove_linePointDragging (50, 60) ?sb = Inr st'
         \<and> obj_get (annotations st') ''L1'' = Some a
         \<and> line_centred a \<and> line_sized 0 a
         \<and> a_endX a = Some 50 \<and> a_endY a = Some 60"
    by auto
  have hc: "\<not> isAnnotationMode ?sc" "imageLoaded ?sc" "\<not> polygonDragging ?sc"
    "\<not> figureResizing ?sc" "\<not> linePointDragging ?sc"
    "obj_get (annotations ?sc) ''L1'' = Some sample_line"
    by (simp_all add: sample_line_state_def initial_STATE_def obj_get_def)
  have lc: "line_centred sample_line"
    by (simp add: line_centred_def num2_def sl)
  have ll: "line_length sample_line = Some 20"
    by (simp add: line_length_def num2_def sl sqrt_400)
  from line_invariant_kept [where st = ?sc and f = "''L1''" and fd = sample_line
      and mx = 20 and my = 30 and ox = 0 and oy = 0,
      THEN conjunct2, THEN conjunct2, THEN conjunct1] hc sl
  obtain s1 s2 where down:
    "handleFigureMouseDown (Other (Some ''L1'')) 20 30 0 0 ?sc = Inr s1"
    "handleLineMouseDown True ''L1'' 20 30 0 0 s1 = Inr s2"
    "line_drag ''L1'' sample_line s2"
    by auto
  from line_invariant_kept [where st = s2 and f = "''L1''" and fd = sample_line
      and mx' = 70 and my' = 80, THEN conjunct2, THEN conjunct2, THEN conjunct2]
    down(3) sl lc ll
  obtain s3 a3 where m1:
    "handleMouseMove 70 80 s2 = Inr s3"
    "obj_get (annotations s3) ''L1'' = Some a3"
    "a_size a3 = Some 20" "line_length a3 = Some 20" "line_centred a3"
    "line_drag ''L1'' sample_line s3"
    by auto
  from line_invariant_kept [where st = s3 and f = "''L1''" and fd = sample_line
      and mx' = 90 and my' = 10, THEN conjunct2, THEN conjunct2, THEN conjunct2]
    m1(6) sl lc ll
  obtain s4 a4 where m2:
    "handleMouseMove 90 10 s3 = Inr s4"
    "obj_get (annotations s4) ''L1'' = Some a4"
    "a_size a4 = Some 20" "line_length a4 = Some 20" "line_centred a4"
    by auto
  have c: "\<exists>s1 s2 s3 s4 a b. handleFigureMouseDown (Other (Some ''L1'')) 20 30 0 0 ?sc = Inr s1
         \<and> handleLineMouseDown True ''L1'' 20 30 0 0 s1 = Inr s2
         \<and> handleMouseMove 70 80 s2 = Inr s3
         \<and> obj_get (annotations s3) ''L1'' = Some a
         \<and> a_size a = Some 20 \<and> line_length a = Some 20 \<and> line_centred a
         \<and> handleMouseMove 90 10 s3 = Inr s4
         \<and> obj_get (annotations s4) ''L1'' = Some b
         \<and> a_size b = Some 20 \<and> line_length b = Some 20 \<and> line_centred b"
    using down(1,2) m1(1-5) m2 by blast
  show ?thesis using ha(1,2) d a b lc c by simp
qed

text \<open>
  The guard of \<open>handleLineMouseDown\<close> is not the guard of \<open>handleFigureMouseDown\<close>. On
  a line that is not interactive the second handler returns at once, the drag is started
  by the first handler alone, and the pointer-move adds its displacement to the endpoint
  coordinates remembered from an earlier drag (or to the initial zeros): the line from
  (20, 20) to (20, 40), dragged by its centre from (20, 30) to (70, 80), is stored with
  both endpoints at (50, 50), the centre (70, 80) and the size 20.
\<close>

lemma line_drag_not_interactive:
  "\<exists>s1 s2 s3. handleFigureMouseDown (Other (Some ''L1'')) 20 30 0 0 sample_line_state = Inr s1
     \<and> handleLineMouseDown False ''L1'' 20 30 0 0 s1 = Inr s2
     \<and> handleMouseMove 70 80 s2 = Inr s3
     \<and> obj_get (annotations s3) ''L1''
         = Some (sample_line\<lparr> a_startX := Some 50, a_startY := Some 50,
                   a_endX := Some 50, a_endY := Some 50,
                   a_x := Some 70, a_y := Some 80 \<rparr>)"
  by (simp add: handleFigureMouseDown_def handleLineMouseDown_def handleMouseMove_def
        handleMouseMove_pan_def handleMouseMove_figureDragging_def
        handleMouseMove_figureResizing_def handleMouseMove_linePointDragging_def
        sample_line_state_def initial_STATE_def obj_get_def sample_line_def
        no_fields_def truthy_def key_of_def Let_def num2_def displayToImageCoords_def)

section \<open>Arrow-key nudge\<close>

lemma updateFigurePosition_keeps:
  "selectedFigure (updateFigurePosition f nx ny st) = selectedFigure st"
  "requests (updateFigurePosition f nx ny st) = requests st"
  "messages (updateFigurePosition f nx ny st) = messages st"
  by (simp_all add: updateFigurePosition_def split: option.splits)

lemma updateFigurePosition_entry:
  "obj_get (annotations st) f = Some fd \<Longrightarrow>
   obj_get (annotations (updateFigurePosition f nx ny st)) f = Some (fd\<lparr> a_x := nx, a_y := ny \<rparr>)"
  by (simp add: updateFigurePosition_def obj_get_obj_set)

lemma saveFigureUpdate_send_keeps:
  "annotations (saveFigureUpdate_send f nx ny sh sz st) = annotations st"
  "messages (saveFigureUpdate_send f nx ny sh sz st) = messages st"
  "history (saveFigureUpdate_send f nx ny sh sz st) = history st"
  "requests (saveFigureUpdate_send f nx ny sh sz st)
     = requests st @ [\<lparr> endpoint = ''figures'', label = f, action = ''update'',
         body = no_fields\<lparr> a_x := nx, a_y := ny, a_shape := sh, a_size := sz \<rparr> \<rparr>]"
  by (simp_all add: saveFigureUpdate_send_def fetch_keeps)

lemma saveFigureUpdate_resume_keeps:
  "annotations (saveFigureUpdate_resume resp now st) = annotations st"
  "requests (saveFigureUpdate_resume resp now st) = requests st"
  by (cases resp; simp add: saveFigureUpdate_resume_def showMessage_keeps saveToHistory_keeps)+

lemma moveFigureWithArrow_unfold:
  assumes "selectedFigure st = Some f" and "f \<noteq> []"
    and "obj_get (annotations st) f = Some fd"
    and "a_x fd = Some x" and "a_y fd = Some y"
    and "t = clamp_to_image st (nudge_target direction (nudge_step shiftKey ctrlKey metaKey) (x, y))"
  shows "moveFigureWithArrow direction shiftKey ctrlKey metaKey resp now st
     = Inr (saveFigureUpdate_resume resp now
             (showMessage ''Moved ${stepText}'' ''info''
               (saveFigureUpdate_send f (Some (fst t)) (Some (snd t)) (a_shape fd) (a_size fd)
                 (updateFigurePosition f (Some (fst t)) (Some (snd t)) st))))"
proof -
  define step where "step = nudge_step shiftKey ctrlKey metaKey"
  have stepSize: "(if shiftKey then 10 else if ctrlKey \<or> metaKey then 0.5 else (1::real)) = step"
    by (simp add: step_def nudge_step_def)
  have tr: "truthy (selectedFigure st)" "key_of (selectedFigure st) = f"
    using assms(1,2) by (simp_all add: truthy_def key_of_def)
  consider "direction = ''ArrowUp''" | "direction = ''ArrowDown''"
    | "direction = ''ArrowLeft''" | "direction = ''ArrowRight''"
    | "direction \<noteq> ''ArrowUp'' \<and> direction \<noteq> ''ArrowDown''
        \<and> direction \<noteq> ''ArrowLeft'' \<and> direction \<noteq> ''ArrowRight''"
    by blast
  then show ?thesis
  proof cases
    case 1
    have t': "t = (max 0 (min (naturalWidth st) x), max 0 (min (naturalHeight st) (y - step)))"
      using assms(6) 1 by (simp add: nudge_target_def clamp_to_image_def step_def)
    show ?thesis
      unfolding moveFigureWithArrow_def Let_def stepSize t'
      using 1 tr assms(3,4,5) by (simp add: updateFigurePosition_keeps)
  next
    case 2
    have t': "t = (max 0 (min (naturalWidth st) x), max 0 (min (naturalHeight st) (y + step)))"
      using assms(6) 2 by (simp add: nudge_target_def clamp_to_image_def step_def)
    show ?thesis
      unfolding moveFigureWithArrow_def Let_def stepSize t'
      using 2 tr assms(3,4,5) by (simp add: updateFigurePosition_keeps)
  next
    case 3
    have t': "t = (max 0 (min (naturalWidth st) (x - step)), max 0 (min (naturalHeight st) y))"
      using assms(6) 3 by (simp add: nudge_target_def clamp_to_image_def step_def)
    show ?thesis
      unfolding moveFigureWithArrow_def Let_def stepSize t'
      using 3 tr assms(3,4,5) by (simp add: updateFigurePosition_keeps)
  next
    case 4
    have t': "t = (max 0 (min (naturalWidth st) (x + step)), max 0 (min (naturalHeight st) y))"
      using assms(6) 4 by (simp add: nudge_target_def clamp_to_image_def step_def)
    show ?thesis
      unfolding moveFigureWithArrow_def Let_def stepSize t'
      using 4 tr assms(3,4,5) by (simp add: updateFigurePosition_keeps)
  next
    case 5
    have t': "t = (max 0 (min (naturalWidth st) x), max 0 (min (naturalHeight st) y))"
      using assms(6) 5 by (simp add: nudge_target_def clamp_to_image_def step_def)
    show ?thesis
      unfolding moveFigureWithArrow_def Let_def stepSize t'
      using 5 tr assms(3,4,5) by (simp add: updateFigurePosition_keeps)
  qed
qed



text \<open>
  The nudge applies to any selected figure, also to a line. It moves the centre only: the
  endpoints of the line stay where they were, and the centre is no longer their midpoint.
  (Dragging the line moves the endpoints along.)
\<close>

lemma moveFigureWithArrow_line_off_centre:
  "\<exists>st'. moveFigureWithArrow ''ArrowRight'' False False False Success ''t1''
          ((initial_STATE [(''L1'', sample_line)])\<lparr> isAnnotationMode := False,
             selectedFigure := Some ''L1'', naturalWidth := 200, naturalHeight := 200 \<rparr>) = Inr st'
     \<and> obj_get (annotations st') ''L1'' = Some (sample_line\<lparr> a_x := Some 21, a_y := Some 30 \<rparr>)
     \<and> \<not> line_centred (sample_line\<lparr> a_x := Some 21, a_y := Some 30 \<rparr>)"
proof -
  let ?s = "(initial_STATE [(''L1'', sample_line)])\<lparr> isAnnotationMode := False,
       selectedFigure := Some ''L1'', naturalWidth := 200, naturalHeight := 200 \<rparr>"
  have h: "selectedFigure ?s = Some ''L1''" "obj_get (annotations ?s) ''L1'' = Some sample_line"
    by (simp_all add: initial_STATE_def obj_get_def)
  have c: "a_x sample_line = Some 20" "a_y sample_line = Some 30"
    by (simp_all add: sample_line_def no_fields_def)
  have t: "(21, 30) = clamp_to_image ?s
      (nudge_target ''ArrowRight'' (nudge_step False False False) (20, 30))"
    by (simp add: clamp_to_image_def nudge_target_def nudge_step_def)
  have u: "moveFigureWithArrow ''ArrowRight'' False False False Success ''t1'' ?s
     = Inr (saveFigureUpdate_resume Success ''t1''
             (showMessage ''Moved ${stepText}'' ''info''
               (saveFigureUpdate_send ''L1'' (Some 21) (Some 30) (a_shape sample_line)
                 (a_size sample_line) (updateFigurePosition ''L1'' (Some 21) (Some 30) ?s))))"
    using moveFigureWithArrow_unfold [OF h(1) _ h(2) c t, where resp = Success
        and now = "''t1''"]
    by simp
  have e: "obj_get (annotations (updateFigurePosition ''L1'' (Some 21) (Some 30) ?s)) ''L1''
      = Some (sample_line\<lparr> a_x := Some 21, a_y := Some 30 \<rparr>)"
    using h(2) by (rule updateFigurePosition_entry)
  have n: "\<not> line_centred (sample_line\<lparr> a_x := Some 21, a_y := Some 30 \<rparr>)"
    by (simp add: line_centred_def num2_def sample_line_def no_fields_def)
  show ?thesis
    unfolding u using e n
    by (simp add: saveFigureUpdate_resume_keeps showMessage_keeps saveFigureUpdate_send_keeps)
qed

section \<open>Palette colours in a render pass\<close>

lemma length_COLORS: "length COLORS = 12"
  by (simp add: COLORS_def)

lemma render_entry_nodes:
  "nd \<in> set (render_entry st e i) \<Longrightarrow>
   n_name nd = fst e \<and> n_color nd = COLORS ! (i mod 12)
   \<and> obj_get (visibilityToggles st) (fst e) \<noteq> Some False"
  by (auto simp: render_entry_def Let_def length_COLORS renderPolygonShape_def renderFigure_def
        renderLandmarkPoint_def split: if_splits)

lemma render_entries_nodes:
  "nd \<in> set (render_entries st es k) \<Longrightarrow>
   \<exists>i < length es. fst (es ! i) = n_name nd \<and> n_color nd = COLORS ! ((k + i) mod 12)
      \<and> obj_get (visibilityToggles st) (n_name nd) \<noteq> Some False"
proof (induction es arbitrary: k)
  case Nil
  then show ?case by simp
next
  case (Cons e es)
  from Cons.prems have "nd \<in> set (render_entry st e k) \<or> nd \<in> set (render_entries st es (k + 1))"
    by simp
  then show ?case
  proof
    assume "nd \<in> set (render_entry st e k)"
    from render_entry_nodes [OF this] show ?thesis by (intro exI [of _ 0]) simp
  next
    assume "nd \<in> set (render_entries st es (k + 1))"
    from Cons.IH [OF this] obtain i where "i < length es" "fst (es ! i) = n_name nd"
      "n_color nd = COLORS ! ((k + 1 + i) mod 12)"
      "obj_get (visibilityToggles st) (n_name nd) \<noteq> Some False" by blast
    then show ?thesis by (intro exI [of _ "Suc i"]) (simp add: add.commute add.left_commute)
  qed
qed

lemma render_entry_cong:
  assumes "obj_get (visibilityToggles st') (fst e) = obj_get (visibilityToggles st) (fst e)"
    and "naturalWidth st' = naturalWidth st" and "naturalHeight st' = naturalHeight st"
  shows "render_entry st' e i = render_entry st e i"
  unfolding render_entry_def Let_def renderLandmarkPoint_def isWithinImageBounds_def assms
  by (rule refl)

lemma toggleVisibility_keeps:
  "annotations (toggleVisibility k st) = annotations st"
  "naturalWidth (toggleVisibility k st) = naturalWidth st"
  "naturalHeight (toggleVisibility k st) = naturalHeight st"
  "n \<noteq> k \<Longrightarrow> obj_get (visibilityToggles (toggleVisibility k st)) n
                 = obj_get (visibilityToggles st) n"
  by (simp_all add: toggleVisibility_def obj_get_obj_set)

lemma filter_render_entry_other:
  "fst e \<noteq> n \<Longrightarrow> filter (\<lambda>nd. n_name nd = n) (render_entry st e i) = []"
  by (auto simp: filter_empty_conv dest: render_entry_nodes)

lemma filter_render_entries_toggle:
  assumes "k \<noteq> n"
  shows "filter (\<lambda>nd. n_name nd = n) (render_entries (toggleVisibility k st) es i)
       = filter (\<lambda>nd. n_name nd = n) (render_entries st es i)"
proof (induction es arbitrary: i)
  case Nil
  then show ?case by simp
next
  case (Cons e es)
  have "filter (\<lambda>nd. n_name nd = n) (render_entry (toggleVisibility k st) e i)
      = filter (\<lambda>nd. n_name nd = n) (render_entry st e i)"
  proof (cases "fst e = n")
    case True
    then have "fst e \<noteq> k" using assms by simp
    then have "render_entry (toggleVisibility k st) e i = render_entry st e i"
      by (intro render_entry_cong) (simp_all add: toggleVisibility_keeps)
    then show ?thesis by simp
  next
    case False
    then show ?thesis by (simp add: filter_render_entry_other)
  qed
  then show ?case using Cons.IH by simp
qed

lemma obj_set_same: "obj_get ob k = Some v \<Longrightarrow> obj_set k v ob = ob"
  by (induction ob) (auto simp: obj_get_def split: if_splits)

lemma obj_set_twice: "obj_set k v (obj_set k w ob) = obj_set k v ob"
  by (induction ob) auto

lemma toggleVisibility_twice:
  assumes "obj_get (visibilityToggles st) k \<noteq> None"
  shows "toggleVisibility k (toggleVisibility k st) = st"
proof -
  from assms obtain b where b: "obj_get (visibilityToggles st) k = Some b" by auto
  have "obj_set k b (visibilityToggles st) = visibilityToggles st"
    using b by (rule obj_set_same)
  then show ?thesis
    using b by (cases b) (simp_all add: toggleVisibility_def obj_get_obj_set obj_set_twice)
qed

lemma index_unique:
  "distinct (map fst es) \<Longrightarrow> i < length es \<Longrightarrow> j < length es \<Longrightarrow>
   fst (es ! i) = fst (es ! j) \<Longrightarrow> i = j"
  by (metis distinct_conv_nth length_map nth_map)

lemma renderAnnotations_runs:
  "force \<or> fst page \<noteq> Some (getAnnotationsHash st) \<Longrightarrow>
   snd (renderAnnotations force st page) = render_entries st (annotations st) 0"
  by (auto simp: renderAnnotations_def Let_def)

text \<open>
  C10. In a render pass that runs, every node carries the label of a store entry that is
  not hidden and the colour \<open>COLORS[i mod 12]\<close> for the position \<open>i\<close> of that entry in the
  whole store: hidden entries before it count. Toggling the visibility of one label
  leaves the nodes of every other label as they were; toggling it twice gives the same
  scene again; and two passes over the same store give a label the same colour, whatever
  else differs between the two states.
\<close>

theorem palette_by_position:
  "(force \<or> fst page \<noteq> Some (getAnnotationsHash st) \<longrightarrow>
      (\<forall>nd \<in> set (snd (renderAnnotations force st page)).
         \<exists>i < length (annotations st).
           fst (annotations st ! i) = n_name nd \<and> n_color nd = COLORS ! (i mod 12)
           \<and> obj_get (visibilityToggles st) (n_name nd) \<noteq> Some False))
   \<and> (k \<noteq> n \<longrightarrow>
        filter (\<lambda>nd. n_name nd = n) (snd (renderAnnotations True (toggleVisibility k st) page'))
          = filter (\<lambda>nd. n_name nd = n) (snd (renderAnnotations True st page)))
   \<and> (obj_get (visibilityToggles st) k \<noteq> None \<longrightarrow>
        snd (renderAnnotations True (toggleVisibility k (toggleVisibility k st)) page')
          = snd (renderAnnotations True st page))
   \<and> (distinct (map fst (annotations st)) \<and> annotations st' = annotations st
        \<and> nd \<in> set (snd (renderAnnotations True st page))
        \<and> nd' \<in> set (snd (renderAnnotations True st' page'))
        \<and> n_name nd = n_name nd' \<longrightarrow> n_color nd = n_color nd')"
proof (intro conjI impI)
  assume r: "force \<or> fst page \<noteq> Some (getAnnotationsHash st)"
  show "\<forall>nd \<in> set (snd (renderAnnotations force st page)).
         \<exists>i < length (annotations st).
           fst (annotations st ! i) = n_name nd \<and> n_color nd = COLORS ! (i mod 12)
           \<and> obj_get (visibilityToggles st) (n_name nd) \<noteq> Some False"
    unfolding renderAnnotations_runs [OF r]
    using render_entries_nodes [of _ st "annotations st" 0] by simp
next
  assume "k \<noteq> n"
  then show "filter (\<lambda>nd. n_name nd = n)
               (snd (renderAnnotations True (toggleVisibility k st) page'))
          = filter (\<lambda>nd. n_name nd = n) (snd (renderAnnotations True st page))"
    by (simp add: renderAnnotations_runs toggleVisibility_keeps filter_render_entries_toggle)
next
  assume "obj_get (visibilityToggles st) k \<noteq> None"
  then show "snd (renderAnnotations True (toggleVisibility k (toggleVisibility k st)) page')
          = snd (renderAnnotations True st page)"
    by (simp add: renderAnnotations_runs toggleVisibility_twice)
next
  assume h: "distinct (map fst (annotations st)) \<and> annotations st' = annotations st
        \<and> nd \<in> set (snd (renderAnnotations True st page))
        \<and> nd' \<in> set (snd (renderAnnotations True st' page'))
        \<and> n_name nd = n_name nd'"
  then have m: "nd \<in> set (render_entries st (annotations st) 0)"
    and m': "nd' \<in> set (render_entries st' (annotations st) 0)"
    by (auto simp: renderAnnotations_runs)
  from render_entries_nodes [OF m] obtain i where i: "i < length (annotations st)"
    "fst (annotations st ! i) = n_name nd" "n_color nd = COLORS ! (i mod 12)" by auto
  from render_entries_nodes [OF m'] obtain j where j: "j < length (annotations st)"
    "fst (annotations st ! j) = n_name nd'" "n_color nd' = COLORS ! (j mod 12)" by auto
  have "i = j" using h i(1,2) j(1,2) index_unique [of "annotations st" i j] by simp
  then show "n_color nd = n_color nd'" using i(3) j(3) by simp
qed

theorem palette_by_position_witness:
  "snd (renderAnnotations True sample_scene_state (None, []))
     = [\<lparr> n_class = ''annotation-point'', n_name = ''A'', n_color = ''#ff0000'' \<rparr>,
        \<lparr> n_class = ''annotation-point'', n_name = ''C'', n_color = ''#0000ff'' \<rparr>]
   \<and> snd (renderAnnotations True (toggleVisibility ''B'' sample_scene_state) (None, []))
     = [\<lparr> n_class = ''annotation-point'', n_name = ''A'', n_color = ''#ff0000'' \<rparr>,
        \<lparr> n_class = ''annotation-point'', n_name = ''B'', n_color = ''#00ff00'' \<rparr>,
        \<lparr> n_class = ''annotation-point'', n_name = ''C'', n_color = ''#0000ff'' \<rparr>]
   \<and> filter (\<lambda>nd. n_name nd = ''C'')
        (snd (renderAnnotations True (toggleVisibility ''B'' sample_scene_state) (None, [])))
     = [\<lparr> n_class = ''annotation-point'', n_name = ''C'', n_color = ''#0000ff'' \<rparr>]
   \<and> snd (renderAnnotations True
            (toggleVisibility ''B'' (toggleVisibility ''B'' sample_scene_state)) (None, []))
     = [\<lparr> n_class = ''annotation-point'', n_name = ''A'', n_color = ''#ff0000'' \<rparr>,
        \<lparr> n_class = ''annotation-point'', n_name = ''C'', n_color = ''#0000ff'' \<rparr>]"
proof -
  have s0: "snd (renderAnnotations True sample_scene_state (None, []))
     = [\<lparr> n_class = ''annotation-point'', n_name = ''A'', n_color = ''#ff0000'' \<rparr>,
        \<lparr> n_class = ''annotation-point'', n_name = ''C'', n_color = ''#0000ff'' \<rparr>]"
    by (simp add: renderAnnotations_def sample_scene_state_def initial_STATE_def render_entry_def
          sample_landmark_def no_fields_def renderLandmarkPoint_def isWithinImageBounds_def
          obj_get_def COLORS_def Let_def)
  have s1: "snd (renderAnnotations True (toggleVisibility ''B'' sample_scene_state) (None, []))
     = [\<lparr> n_class = ''annotation-point'', n_name = ''A'', n_color = ''#ff0000'' \<rparr>,
        \<lparr> n_class = ''annotation-point'', n_name = ''B'', n_color = ''#00ff00'' \<rparr>,
        \<lparr> n_class = ''annotation-point'', n_name = ''C'', n_color = ''#0000ff'' \<rparr>]"
    by (simp add: renderAnnotations_def toggleVisibility_def sample_scene_state_def
          initial_STATE_def render_entry_def
          sample_landmark_def no_fields_def renderLandmarkPoint_def isWithinImageBounds_def
          obj_get_def COLORS_def Let_def)
  have v: "obj_get (visibilityToggles sample_scene_state) ''B'' \<noteq> None"
    by (simp add: sample_scene_state_def obj_get_def)
  have ne: "''B'' \<noteq> ''C''" by simp
  note T = palette_by_position [where st = sample_scene_state and k = "''B''" and n = "''C''"
      and page = "(None, [])" and page' = "(None, [])"]
  from T ne have f: "filter (\<lambda>nd. n_name nd = ''C'')
        (snd (renderAnnotations True (toggleVisibility ''B'' sample_scene_state) (None, [])))
     = filter (\<lambda>nd. n_name nd = ''C'')
        (snd (renderAnnotations True sample_scene_state (None, [])))"
    by blast
  from T v have t: "snd (renderAnnotations True
            (toggleVisibility ''B'' (toggleVisibility ''B'' sample_scene_state)) (None, []))
     = snd (renderAnnotations True sample_scene_state (None, []))"
    by blast
  have f': "filter (\<lambda>nd. n_name nd = ''C'')
        (snd (renderAnnotations True (toggleVisibility ''B'' sample_scene_state) (None, [])))
     = [\<lparr> n_class = ''annotation-point'', n_name = ''C'', n_color = ''#0000ff'' \<rparr>]"
    unfolding f s0 by simp
  show ?thesis using s0 s1 f' t by simp
qed

section \<open>Failed persistence calls\<close>














lemma resized_to_fields:
  "a_shape (resized_to st handle mx my ms fd) = a_shape fd"
  "a_x (resized_to st handle mx my ms fd) = a_x fd"
  "a_y (resized_to st handle mx my ms fd) = a_y fd"
  by (simp_all add: resized_to_def)













end
